theory Spec2Isabelle
  imports Main
begin

section \<open>JavaScript values\<close>

text \<open>
  The data blob, the row data and the header data of \<open>ListViewDataSource\<close> have the
  Flow type \<open>any\<close>. They are modelled by a datatype of JavaScript values: the two absence
  values, the primitives, arrays, plain objects as the list of their own enumerable
  properties in enumeration order (keys pairwise distinct), and the built-in
  functions and objects of the runtime that a read can reach through a prototype.
  Numbers are integers.
\<close>

datatype jsval =
    JUndefined
  | JNull
  | JBool bool
  | JNum int
  | JStr string
  | JArr "jsval list"
  | JObj "(string \<times> jsval) list"
  | JBuiltin string

text \<open>
  Every plain object, and so every \<open>{}\<close> that the source uses as a dictionary, inherits
  the members of \<open>Object.prototype\<close>: a read of one of these keys finds a built-in
  function (for \<open>__proto__\<close> the prototype itself) unless the object has the key
  itself. The runtime is not part of the source; the list is the one of ECMAScript 5.1
  (15.2.4) with the legacy accessors of the engines the library runs on.
\<close>

definition objectPrototypeKeys :: "string list" where
  "objectPrototypeKeys =
     [''constructor'', ''toString'', ''toLocaleString'', ''valueOf'', ''hasOwnProperty'',
      ''isPrototypeOf'', ''propertyIsEnumerable'', ''__proto__'', ''__defineGetter__'',
      ''__defineSetter__'', ''__lookupGetter__'', ''__lookupSetter__'']"

definition inheritedName :: "string \<Rightarrow> bool" where
  "inheritedName k \<longleftrightarrow> k \<in> set objectPrototypeKeys"

text \<open>
  What an array, a string, a number, a boolean or a built-in object holds under a key
  that is not its own index or length depends on the engine (\<open>Array.prototype\<close> and its
  like grow from one edition of the language to the next), and such a read can throw
  (\<open>None\<close>). It is a fixed table of the runtime about which nothing is assumed: no
  statement below depends on what it holds.
\<close>

definition runtimeMember :: "jsval \<Rightarrow> string \<Rightarrow> jsval option" where
  "runtimeMember = (SOME read. True)"

text \<open>Decimal rendering of an array index, as JavaScript spells the key of an element.\<close>

fun string_of_nat :: "nat \<Rightarrow> string" where
  "string_of_nat n =
     (if n < 10 then [''0123456789'' ! n]
      else string_of_nat (n div 10) @ [''0123456789'' ! (n mod 10)])"

declare string_of_nat.simps [simp del]

text \<open>The own index properties of an array, from index \<open>i\<close> on.\<close>

fun arrayEntries :: "nat \<Rightarrow> 'a list \<Rightarrow> (string \<times> 'a) list" where
  "arrayEntries i [] = []"
| "arrayEntries i (x # xs) = (string_of_nat i, x) # arrayEntries (Suc i) xs"

text \<open>
  Property read \<open>v[k]\<close>. \<open>None\<close> is the \<open>TypeError\<close> that JavaScript raises when \<open>v\<close> is
  \<open>null\<close> or \<open>undefined\<close>. A plain object answers with its own property, else with the
  member it inherits from \<open>Object.prototype\<close>, else with \<open>undefined\<close>. The other values
  answer with their own index or length, else with what the runtime holds.
\<close>

fun getProp :: "jsval \<Rightarrow> string \<Rightarrow> jsval option" where
  "getProp JUndefined k = None"
| "getProp JNull k = None"
| "getProp (JBool b) k = runtimeMember (JBool b) k"
| "getProp (JNum n) k = runtimeMember (JNum n) k"
| "getProp (JStr s) k =
     (case map_of (arrayEntries 0 s) k of
        Some c \<Rightarrow> Some (JStr [c])
      | None \<Rightarrow> if k = ''length'' then Some (JNum (int (length s)))
                else runtimeMember (JStr s) k)"
| "getProp (JArr xs) k =
     (case map_of (arrayEntries 0 xs) k of
        Some v \<Rightarrow> Some v
      | None \<Rightarrow> if k = ''length'' then Some (JNum (int (length xs)))
                else runtimeMember (JArr xs) k)"
| "getProp (JObj kvs) k =
     (case map_of kvs k of
        Some v \<Rightarrow> Some v
      | None \<Rightarrow> if inheritedName k then Some (JBuiltin k) else Some JUndefined)"
| "getProp (JBuiltin b) k = runtimeMember (JBuiltin b) k"

text \<open>
  \<open>Object.keys(v)\<close>: the own enumerable keys of an array or a plain object, none for a
  built-in object (its properties are not enumerable); \<open>None\<close> is the \<open>TypeError\<close>
  raised for \<open>null\<close>, \<open>undefined\<close> and (ECMAScript 5) the primitives.
\<close>

fun objectKeys :: "jsval \<Rightarrow> string list option" where
  "objectKeys (JArr xs) = Some (map fst (arrayEntries 0 xs))"
| "objectKeys (JObj kvs) = Some (map fst kvs)"
| "objectKeys (JBuiltin b) = Some []"
| "objectKeys v = None"

text \<open>
  An identity handed to an extractor is a string, or \<open>undefined\<close> (\<open>None\<close>) when an
  accessor resolved an index that is out of range. Used as a property key,
  \<open>undefined\<close> is spelled \<open>"undefined"\<close>.
\<close>

definition propertyKey :: "string option \<Rightarrow> string" where
  "propertyKey k = (case k of None \<Rightarrow> ''undefined'' | Some s \<Rightarrow> s)"

section \<open>Errors, diagnostics, calls\<close>

text \<open>
  Modelled from the spec: the modules \<open>invariant\<close>, \<open>warning\<close> and \<open>isEmpty\<close> that the
  source requires are not part of it. A configuration error is fatal: \<open>invariant(cond, msg)\<close>
  throws when \<open>cond\<close> is false, and the model returns \<open>Inl (InvariantViolation msg)\<close>
  there. A structural warning is not: \<open>warning(cond, msg)\<close> reports on the diagnostic
  channel when \<open>cond\<close> is false and returns. \<open>isEmpty(arr)\<close> holds of the empty array.

  An exception is a value of \<open>error\<close>; \<open>ExtractorError\<close> is any exception that leaves a row
  or header extractor (the default extractors raise a \<open>TypeError\<close> on a \<open>null\<close> or
  \<open>undefined\<close> section).
\<close>

datatype error =
    InvariantViolation string
  | TypeError
  | ExtractorError

text \<open>The diagnostics of the accessors: the message and the indices spliced into it.\<close>

datatype diagnostic =
    MissingDirtyBitRow int int
  | InvalidSectionRow int int
  | MissingDirtyBitSection int
  | InvalidSection int

definition warning :: "bool \<Rightarrow> diagnostic \<Rightarrow> diagnostic list" where
  "warning cond msg = (if cond then [] else [msg])"

text \<open>
  A diff pass calls the caller's comparators. Each call is recorded, in order, with
  its two arguments, so that a statement about when a comparator is invoked is a
  statement about this trace.
\<close>

datatype call =
    RowHasChangedCall jsval jsval
  | SectionHeaderHasChangedCall jsval jsval

section \<open>The data source\<close>

type_synonym differType = "jsval \<Rightarrow> jsval \<Rightarrow> bool"
type_synonym getRowDataType = "jsval \<Rightarrow> string option \<Rightarrow> string option \<Rightarrow> jsval option"
type_synonym getSectionHeaderDataType = "jsval \<Rightarrow> string option \<Rightarrow> jsval option"

definition defaultGetRowData :: getRowDataType where
  "defaultGetRowData dataBlob sectionID rowID =
     (case getProp dataBlob (propertyKey sectionID) of
        None \<Rightarrow> None
      | Some section \<Rightarrow> getProp section (propertyKey rowID))"

definition defaultGetSectionHeaderData :: getSectionHeaderDataType where
  "defaultGetSectionHeaderData dataBlob sectionID = getProp dataBlob (propertyKey sectionID)"

text \<open>
  \<open>ParamType\<close>: a field is \<open>None\<close> when the caller left it out; \<open>p_rowHasChanged\<close> is
  \<open>None\<close> also when the caller passed something that is not a function. The other
  fields are of their Flow types, a function or nothing.
\<close>

record ParamType =
  p_rowHasChanged :: "differType option"
  p_getRowData :: "getRowDataType option"
  p_sectionHeaderHasChanged :: "differType option"
  p_getSectionHeaderData :: "getSectionHeaderDataType option"

text \<open>
  The object: \<open>m_x\<close> is the private member \<open>_x\<close> of the class. \<open>_getSectionHeaderData\<close> is
  optional because \<open>getSectionHeaderData\<close> tests it; \<open>_sectionHeaderHasChanged\<close> is
  optional by its declaration.
\<close>

record ListViewDataSource =
  m_rowHasChanged :: differType
  m_getRowData :: getRowDataType
  m_sectionHeaderHasChanged :: "differType option"
  m_getSectionHeaderData :: "getSectionHeaderDataType option"
  m_dataBlob :: jsval
  m_dirtyRows :: "bool list list"
  m_dirtySections :: "bool list"
  m_cachedRowCount :: nat
  rowIdentities :: "string list list"
  sectionIdentities :: "string list"

definition new_ListViewDataSource :: "ParamType option \<Rightarrow> error + ListViewDataSource" where
  "new_ListViewDataSource params =
     (case params of
        None \<Rightarrow> Inl (InvariantViolation ''Must provide a rowHasChanged function.'')
      | Some p \<Rightarrow>
          (case p_rowHasChanged p of
             None \<Rightarrow> Inl (InvariantViolation ''Must provide a rowHasChanged function.'')
           | Some f \<Rightarrow>
               Inr \<lparr> m_rowHasChanged = f,
                     m_getRowData =
                       (case p_getRowData p of Some g \<Rightarrow> g | None \<Rightarrow> defaultGetRowData),
                     m_sectionHeaderHasChanged = p_sectionHeaderHasChanged p,
                     m_getSectionHeaderData =
                       Some (case p_getSectionHeaderData p of
                               Some g \<Rightarrow> g
                             | None \<Rightarrow> defaultGetSectionHeaderData),
                     m_dataBlob = JNull,
                     m_dirtyRows = [],
                     m_dirtySections = [],
                     m_cachedRowCount = 0,
                     rowIdentities = [],
                     sectionIdentities = [] \<rparr>))"

section \<open>Helpers of the module\<close>

text \<open>\<open>countRows\<close>: the loop adds the length of each row list to \<open>totalRows\<close>.\<close>

fun countRows_loop :: "string list list \<Rightarrow> nat \<Rightarrow> nat" where
  "countRows_loop [] totalRows = totalRows"
| "countRows_loop (rowIDs # rest) totalRows = countRows_loop rest (totalRows + length rowIDs)"

definition countRows :: "string list list \<Rightarrow> nat" where
  "countRows allRowIDs = countRows_loop allRowIDs 0"

text \<open>
  \<open>keyedDictionaryFromArray\<close> returns a plain object with the value \<open>true\<close> at every element
  of the array (the empty array gives \<open>{}\<close> on both paths). The model keeps the own keys
  of the object in a map; what the object inherits is added where it is read
  (\<open>dictRead\<close>). Its warning for a repeated element, like the one of
  \<open>_calculateDirtyArrays\<close> for a repeated section, only reports: the diagnostics of a diff
  pass are not recorded, those of the accessors are.
\<close>

fun keyedDictionaryFromArray_loop :: "string list \<Rightarrow> (string \<rightharpoonup> bool) \<Rightarrow> (string \<rightharpoonup> bool)" where
  "keyedDictionaryFromArray_loop [] result = result"
| "keyedDictionaryFromArray_loop (key # rest) result =
     keyedDictionaryFromArray_loop rest (result(key \<mapsto> True))"

definition keyedDictionaryFromArray :: "string list \<Rightarrow> (string \<rightharpoonup> bool)" where
  "keyedDictionaryFromArray arr =
     (if arr = [] then Map.empty else keyedDictionaryFromArray_loop arr Map.empty)"

text \<open>
  Truthiness of the read \<open>dict[k]\<close> of such an object: its own \<open>true\<close>, or the member of
  \<open>Object.prototype\<close> that it inherits under \<open>k\<close>, which is a function or an object and so
  truthy; any other key reads as \<open>undefined\<close>. (The write \<open>dict['__proto__'] = true\<close> is
  ignored by the legacy accessor, and the read finds the prototype: truthy either way.)
\<close>

definition dictRead :: "(string \<rightharpoonup> bool) \<Rightarrow> string \<Rightarrow> bool" where
  "dictRead dict k = ((case dict k of None \<Rightarrow> False | Some b \<Rightarrow> b) \<or> inheritedName k)"

text \<open>
  \<open>prevRowsHash[sectionID][rowID]\<close> when \<open>prevRowsHash\<close> has no own key \<open>sectionID\<close> but finds one
  through its prototype: the first read yields a built-in object (or, after the write
  \<open>prevRowsHash['__proto__'] = ...\<close> replaced the prototype, a value of that dictionary), and
  the truthiness of its member \<open>rowID\<close> depends on the engine; the read can throw
  (\<open>None\<close>). Like \<open>runtimeMember\<close> it is a fixed table of the runtime about which nothing
  is assumed.
\<close>

definition runtimeRowRead ::
  "(string \<rightharpoonup> (string \<rightharpoonup> bool)) \<Rightarrow> string \<Rightarrow> string \<Rightarrow> bool option" where
  "runtimeRowRead = (SOME read. True)"

section \<open>The diff pass\<close>

text \<open>
  First loop of \<open>_calculateDirtyArrays\<close>: for every index \<open>ii\<close> of \<open>prevRowIDs\<close>, the
  dictionary of that row list is stored under \<open>prevSectionIDs[ii]\<close>, a later entry
  replacing an earlier one with the same key. Past the end of \<open>prevSectionIDs\<close> the key
  is \<open>undefined\<close>, spelled \<open>"undefined"\<close>. The map holds the own keys of \<open>prevRowsHash\<close>; the
  key \<open>__proto__\<close> is kept like the others, since a read of it returns what was stored.
\<close>

fun prevRowsHash_loop ::
  "string list \<Rightarrow> string list list \<Rightarrow> (string \<rightharpoonup> (string \<rightharpoonup> bool)) \<Rightarrow>
   (string \<rightharpoonup> (string \<rightharpoonup> bool))" where
  "prevRowsHash_loop sectionIDs [] prevRowsHash = prevRowsHash"
| "prevRowsHash_loop [] (rowIDs # rest) prevRowsHash =
     prevRowsHash_loop [] rest
       (prevRowsHash(''undefined'' \<mapsto> keyedDictionaryFromArray rowIDs))"
| "prevRowsHash_loop (sectionID # sectionIDs) (rowIDs # rest) prevRowsHash =
     prevRowsHash_loop sectionIDs rest
       (prevRowsHash(sectionID \<mapsto> keyedDictionaryFromArray rowIDs))"

text \<open>
  The dirty bit of a section header: \<open>true\<close> if the read of the previous dictionary is
  falsy; otherwise, when a header comparator is set, the comparator on the two
  extracted headers (previous blob first). Calling a missing extractor is a \<open>TypeError\<close>.
\<close>

definition sectionDirty ::
  "ListViewDataSource \<Rightarrow> jsval \<Rightarrow> (string \<rightharpoonup> bool) \<Rightarrow> string \<Rightarrow> call list \<times> (error + bool)" where
  "sectionDirty this prevDataBlob prevSectionsHash sectionID =
     (if \<not> dictRead prevSectionsHash sectionID then ([], Inr True)
      else case m_sectionHeaderHasChanged this of
        None \<Rightarrow> ([], Inr False)
      | Some sectionHeaderHasChanged \<Rightarrow>
          (case m_getSectionHeaderData this of
             None \<Rightarrow> ([], Inl TypeError)
           | Some getHeader \<Rightarrow>
               (case getHeader prevDataBlob (Some sectionID) of
                  None \<Rightarrow> ([], Inl ExtractorError)
                | Some prevData \<Rightarrow>
                    (case getHeader (m_dataBlob this) (Some sectionID) of
                       None \<Rightarrow> ([], Inl ExtractorError)
                     | Some nextData \<Rightarrow>
                         ([SectionHeaderHasChangedCall prevData nextData],
                          Inr (sectionHeaderHasChanged prevData nextData))))))"

text \<open>
  The third disjunct of a row's dirty bit: \<open>this._rowHasChanged\<close> on the row data extracted
  from the previous blob and from the blob of \<open>this\<close>, in that order.
\<close>

definition rowChanged ::
  "ListViewDataSource \<Rightarrow> jsval \<Rightarrow> string \<Rightarrow> string \<Rightarrow> call list \<times> (error + bool)" where
  "rowChanged this prevDataBlob sectionID rowID =
     (case m_getRowData this prevDataBlob (Some sectionID) (Some rowID) of
        None \<Rightarrow> ([], Inl ExtractorError)
      | Some prevData \<Rightarrow>
          (case m_getRowData this (m_dataBlob this) (Some sectionID) (Some rowID) of
             None \<Rightarrow> ([], Inl ExtractorError)
           | Some nextData \<Rightarrow>
               ([RowHasChangedCall prevData nextData],
                Inr (m_rowHasChanged this prevData nextData))))"

text \<open>
  The dirty bit of a row, the three disjuncts of the source in their order:
  \<open>!prevSectionsHash[sectionID] || !prevRowsHash[sectionID][rowID] || this._rowHasChanged(...)\<close>.
  When \<open>prevRowsHash\<close> has the own key \<open>sectionID\<close>, the second test reads that dictionary.
  When it has not, \<open>prevRowsHash[sectionID]\<close> is what the prototype gives: a built-in
  object for an inherited name, or anything once the prototype was replaced, and the
  second test is the runtime's; without either it is \<open>undefined\<close>, and reading \<open>[rowID]\<close>
  of it is a \<open>TypeError\<close>.
\<close>

definition rowDirty ::
  "ListViewDataSource \<Rightarrow> jsval \<Rightarrow> (string \<rightharpoonup> bool) \<Rightarrow> (string \<rightharpoonup> (string \<rightharpoonup> bool)) \<Rightarrow>
   string \<Rightarrow> string \<Rightarrow> call list \<times> (error + bool)" where
  "rowDirty this prevDataBlob prevSectionsHash prevRowsHash sectionID rowID =
     (if \<not> dictRead prevSectionsHash sectionID then ([], Inr True)
      else case prevRowsHash sectionID of
        Some prevRows \<Rightarrow>
          (if \<not> dictRead prevRows rowID then ([], Inr True)
           else rowChanged this prevDataBlob sectionID rowID)
      | None \<Rightarrow>
          (if inheritedName sectionID \<or> prevRowsHash ''__proto__'' \<noteq> None
           then (case runtimeRowRead prevRowsHash sectionID rowID of
                   None \<Rightarrow> ([], Inl TypeError)
                 | Some found \<Rightarrow>
                     (if \<not> found then ([], Inr True)
                      else rowChanged this prevDataBlob sectionID rowID))
           else ([], Inl TypeError)))"

text \<open>
  Inner loop over the row identities of one section: the bits are pushed in row
  order. An exception ends the pass; the calls made before it stay in the trace.
\<close>

fun dirtyRows_loop ::
  "ListViewDataSource \<Rightarrow> jsval \<Rightarrow> (string \<rightharpoonup> bool) \<Rightarrow> (string \<rightharpoonup> (string \<rightharpoonup> bool)) \<Rightarrow>
   string \<Rightarrow> string list \<Rightarrow> call list \<times> (error + bool list)" where
  "dirtyRows_loop this prevDataBlob psh prh sectionID [] = ([], Inr [])"
| "dirtyRows_loop this prevDataBlob psh prh sectionID (rowID # rest) =
     (case rowDirty this prevDataBlob psh prh sectionID rowID of
        (t, Inl e) \<Rightarrow> (t, Inl e)
      | (t, Inr dirty) \<Rightarrow>
          (case dirtyRows_loop this prevDataBlob psh prh sectionID rest of
             (t', Inl e) \<Rightarrow> (t @ t', Inl e)
           | (t', Inr bits) \<Rightarrow> (t @ t', Inr (dirty # bits))))"

text \<open>
  Outer loop over \<open>sectionIdentities\<close>, with \<open>rowIdentities\<close> read at the same index:
  \<open>this.rowIdentities[sIndex].length\<close> is a \<open>TypeError\<close> when there is no row list at
  that index (it is read after the header bit was computed).
\<close>

fun dirtySections_loop ::
  "ListViewDataSource \<Rightarrow> jsval \<Rightarrow> (string \<rightharpoonup> bool) \<Rightarrow> (string \<rightharpoonup> (string \<rightharpoonup> bool)) \<Rightarrow>
   string list \<Rightarrow> string list list \<Rightarrow> call list \<times> (error + bool list \<times> bool list list)" where
  "dirtySections_loop this prevDataBlob psh prh [] rowIDs = ([], Inr ([], []))"
| "dirtySections_loop this prevDataBlob psh prh (sectionID # sections) rowIDs =
     (case sectionDirty this prevDataBlob psh sectionID of
        (t, Inl e) \<Rightarrow> (t, Inl e)
      | (t, Inr dirty) \<Rightarrow>
          (case rowIDs of
             [] \<Rightarrow> (t, Inl TypeError)
           | rows # rowsRest \<Rightarrow>
               (case dirtyRows_loop this prevDataBlob psh prh sectionID rows of
                  (t', Inl e) \<Rightarrow> (t @ t', Inl e)
                | (t', Inr bits) \<Rightarrow>
                    (case dirtySections_loop this prevDataBlob psh prh sections rowsRest of
                       (t'', Inl e) \<Rightarrow> (t @ t' @ t'', Inl e)
                     | (t'', Inr (ds, dr)) \<Rightarrow> (t @ t' @ t'', Inr (dirty # ds, bits # dr))))))"

text \<open>\<open>_calculateDirtyArrays\<close>: \<open>this\<close> is the new source, whose two bitmaps it replaces.\<close>

definition calculateDirtyArrays ::
  "ListViewDataSource \<Rightarrow> jsval \<Rightarrow> string list \<Rightarrow> string list list \<Rightarrow>
   call list \<times> (error + ListViewDataSource)" where
  "calculateDirtyArrays this prevDataBlob prevSectionIDs prevRowIDs =
     (let prevSectionsHash = keyedDictionaryFromArray prevSectionIDs;
          prevRowsHash = prevRowsHash_loop prevSectionIDs prevRowIDs Map.empty
      in case dirtySections_loop this prevDataBlob prevSectionsHash prevRowsHash
                (sectionIdentities this) (rowIdentities this) of
           (t, Inl e) \<Rightarrow> (t, Inl e)
         | (t, Inr (ds, dr)) \<Rightarrow> (t, Inr (this\<lparr>m_dirtySections := ds, m_dirtyRows := dr\<rparr>)))"

section \<open>Cloning\<close>

text \<open>
  The row identities of every section when the caller gave none:
  \<open>Object.keys(dataBlob[sectionID])\<close> for each section in order.
\<close>

fun rowIdentitiesFromBlob :: "jsval \<Rightarrow> string list \<Rightarrow> string list list option" where
  "rowIdentitiesFromBlob dataBlob [] = Some []"
| "rowIdentitiesFromBlob dataBlob (sectionID # rest) =
     (case getProp dataBlob sectionID of
        None \<Rightarrow> None
      | Some section \<Rightarrow>
          (case objectKeys section of
             None \<Rightarrow> None
           | Some keys \<Rightarrow>
               (case rowIdentitiesFromBlob dataBlob rest of
                  None \<Rightarrow> None
                | Some others \<Rightarrow> Some (keys # others))))"

text \<open>
  \<open>cloneWithRowsAndSections\<close>. The result is the receiver after the call, the trace of
  comparator calls, and the new source or the exception. An identity list is \<open>None\<close>
  when the caller passed \<open>null\<close> or nothing (an empty array counts as given).
\<close>

definition cloneWithRowsAndSections ::
  "ListViewDataSource \<Rightarrow> jsval \<Rightarrow> string list option \<Rightarrow> string list list option \<Rightarrow>
   ListViewDataSource \<times> call list \<times> (error + ListViewDataSource)" where
  "cloneWithRowsAndSections this dataBlob sectionIDs rowIDs =
     (case m_sectionHeaderHasChanged this of
        None \<Rightarrow>
          (this, [], Inl (InvariantViolation
             ''Must provide a sectionHeaderHasChanged function with section data.''))
      | Some _ \<Rightarrow>
          (case new_ListViewDataSource (Some
                  \<lparr> p_rowHasChanged = Some (m_rowHasChanged this),
                    p_getRowData = Some (m_getRowData this),
                    p_sectionHeaderHasChanged = m_sectionHeaderHasChanged this,
                    p_getSectionHeaderData = m_getSectionHeaderData this \<rparr>) of
             Inl e \<Rightarrow> (this, [], Inl e)
           | Inr newSource \<Rightarrow>
               (case (case sectionIDs of Some s \<Rightarrow> Some s | None \<Rightarrow> objectKeys dataBlob) of
                  None \<Rightarrow> (this, [], Inl TypeError)
                | Some newSections \<Rightarrow>
                    (case (case rowIDs of
                             Some r \<Rightarrow> Some r
                           | None \<Rightarrow> rowIdentitiesFromBlob dataBlob newSections) of
                       None \<Rightarrow> (this, [], Inl TypeError)
                     | Some newRows \<Rightarrow>
                         (case calculateDirtyArrays
                                 (newSource\<lparr> m_dataBlob := dataBlob,
                                             sectionIdentities := newSections,
                                             rowIdentities := newRows,
                                             m_cachedRowCount := countRows newRows \<rparr>)
                                 (m_dataBlob this) (sectionIdentities this) (rowIdentities this) of
                            (t, r) \<Rightarrow> (this, t, r))))))"

text \<open>
  \<open>cloneWithRows\<close>: a receiver without a header comparator is given the constant-false
  one (an assignment to \<open>this\<close>), then the blob is cloned as the single section \<open>s1\<close>.
\<close>

definition cloneWithRows ::
  "ListViewDataSource \<Rightarrow> jsval \<Rightarrow> string list option \<Rightarrow>
   ListViewDataSource \<times> call list \<times> (error + ListViewDataSource)" where
  "cloneWithRows this dataBlob rowIDs =
     (let rowIds = (case rowIDs of Some r \<Rightarrow> Some [r] | None \<Rightarrow> None);
          this' = (if m_sectionHeaderHasChanged this = None
                   then this\<lparr>m_sectionHeaderHasChanged := Some (\<lambda>prev next. False)\<rparr>
                   else this)
      in cloneWithRowsAndSections this' (JObj [(''s1'', dataBlob)]) (Some [''s1'']) rowIds)"

section \<open>Accessors\<close>

text \<open>An array read \<open>xs[i]\<close> at an integer: \<open>undefined\<close> (\<open>None\<close>) out of range.\<close>

definition arrayGet :: "'a list \<Rightarrow> int \<Rightarrow> 'a option" where
  "arrayGet xs i = (if 0 \<le> i \<and> i < int (length xs) then Some (xs ! nat i) else None)"

definition getRowCount :: "ListViewDataSource \<Rightarrow> nat" where
  "getRowCount this = m_cachedRowCount this"

text \<open>
  \<open>rowShouldUpdate\<close>: \<open>this._dirtyRows[sectionIndex][rowIndex]\<close> is read before the warning;
  with no bitmap row at \<open>sectionIndex\<close> the second read is a \<open>TypeError\<close>.
\<close>

definition rowShouldUpdate ::
  "ListViewDataSource \<Rightarrow> int \<Rightarrow> int \<Rightarrow> diagnostic list \<times> (error + bool option)" where
  "rowShouldUpdate this sectionIndex rowIndex =
     (case arrayGet (m_dirtyRows this) sectionIndex of
        None \<Rightarrow> ([], Inl TypeError)
      | Some bits \<Rightarrow>
          (let needsUpdate = arrayGet bits rowIndex
           in (warning (needsUpdate \<noteq> None) (MissingDirtyBitRow sectionIndex rowIndex),
               Inr needsUpdate)))"

definition sectionHeaderShouldUpdate ::
  "ListViewDataSource \<Rightarrow> int \<Rightarrow> diagnostic list \<times> bool option" where
  "sectionHeaderShouldUpdate this sectionIndex =
     (let needsUpdate = arrayGet (m_dirtySections this) sectionIndex
      in (warning (needsUpdate \<noteq> None) (MissingDirtyBitSection sectionIndex), needsUpdate))"

definition getSectionHeaderData ::
  "ListViewDataSource \<Rightarrow> int \<Rightarrow> diagnostic list \<times> (error + jsval)" where
  "getSectionHeaderData this sectionIndex =
     (case m_getSectionHeaderData this of
        None \<Rightarrow> ([], Inr JNull)
      | Some getHeader \<Rightarrow>
          (let sectionID = arrayGet (sectionIdentities this) sectionIndex
           in (warning (sectionID \<noteq> None) (InvalidSection sectionIndex),
               case getHeader (m_dataBlob this) sectionID of
                 None \<Rightarrow> Inl ExtractorError
               | Some v \<Rightarrow> Inr v)))"

text \<open>
  \<open>getRowData\<close> resolves both identities first; with no row list at \<open>sectionIndex\<close> the
  second read is a \<open>TypeError\<close>, otherwise an unresolved identity is reported and the
  extractor is called with it.
\<close>

definition getRowData ::
  "ListViewDataSource \<Rightarrow> int \<Rightarrow> int \<Rightarrow> diagnostic list \<times> (error + jsval)" where
  "getRowData this sectionIndex rowIndex =
     (let sectionID = arrayGet (sectionIdentities this) sectionIndex
      in case arrayGet (rowIdentities this) sectionIndex of
           None \<Rightarrow> ([], Inl TypeError)
         | Some rows \<Rightarrow>
             (let rowID = arrayGet rows rowIndex
              in (warning (sectionID \<noteq> None \<and> rowID \<noteq> None)
                    (InvalidSectionRow sectionIndex rowIndex),
                  case m_getRowData this (m_dataBlob this) sectionID rowID of
                    None \<Rightarrow> Inl ExtractorError
                  | Some v \<Rightarrow> Inr v)))"

text \<open>\<open>getSectionLengths\<close>: the length of the row list at the index of each section.\<close>

fun getSectionLengths_loop :: "string list \<Rightarrow> string list list \<Rightarrow> error + nat list" where
  "getSectionLengths_loop [] rowIDs = Inr []"
| "getSectionLengths_loop (sectionID # sections) [] = Inl TypeError"
| "getSectionLengths_loop (sectionID # sections) (rows # rest) =
     (case getSectionLengths_loop sections rest of
        Inl e \<Rightarrow> Inl e
      | Inr results \<Rightarrow> Inr (length rows # results))"

definition getSectionLengths :: "ListViewDataSource \<Rightarrow> error + nat list" where
  "getSectionLengths this = getSectionLengths_loop (sectionIdentities this) (rowIdentities this)"

text \<open>
  The two flat-index loops walk \<open>sectionIdentities\<close> with \<open>rowIdentities\<close> at the same
  index. \<open>accessIndex\<close> is compared with the length only from above, so a negative one
  takes the \<open>else\<close> branch of the first section.
\<close>

fun getRowIDForFlatIndex_loop :: "string list \<Rightarrow> string list list \<Rightarrow> int \<Rightarrow> error + jsval" where
  "getRowIDForFlatIndex_loop [] rowIDs accessIndex = Inr JNull"
| "getRowIDForFlatIndex_loop (sectionID # sections) [] accessIndex = Inl TypeError"
| "getRowIDForFlatIndex_loop (sectionID # sections) (rows # rest) accessIndex =
     (if accessIndex \<ge> int (length rows)
      then getRowIDForFlatIndex_loop sections rest (accessIndex - int (length rows))
      else Inr (case arrayGet rows accessIndex of Some rowID \<Rightarrow> JStr rowID | None \<Rightarrow> JUndefined))"

definition getRowIDForFlatIndex :: "ListViewDataSource \<Rightarrow> int \<Rightarrow> error + jsval" where
  "getRowIDForFlatIndex this index =
     getRowIDForFlatIndex_loop (sectionIdentities this) (rowIdentities this) index"

fun getSectionIDForFlatIndex_loop :: "string list \<Rightarrow> string list list \<Rightarrow> int \<Rightarrow> error + jsval" where
  "getSectionIDForFlatIndex_loop [] rowIDs accessIndex = Inr JNull"
| "getSectionIDForFlatIndex_loop (sectionID # sections) [] accessIndex = Inl TypeError"
| "getSectionIDForFlatIndex_loop (sectionID # sections) (rows # rest) accessIndex =
     (if accessIndex \<ge> int (length rows)
      then getSectionIDForFlatIndex_loop sections rest (accessIndex - int (length rows))
      else Inr (JStr sectionID))"

definition getSectionIDForFlatIndex :: "ListViewDataSource \<Rightarrow> int \<Rightarrow> error + jsval" where
  "getSectionIDForFlatIndex this index =
     getSectionIDForFlatIndex_loop (sectionIdentities this) (rowIdentities this) index"


section \<open>The stated rule for a row\<close>

text \<open>
  The row identities that a snapshot lists for a section: those at the position of
  the section among the section identities, at its last position when the identity
  occurs more than once (a later duplicate wins), and none when the snapshot has no
  such section. This follows the wording of the specification, not the code.
\<close>

definition rowIdentitiesOfSection :: "ListViewDataSource \<Rightarrow> string \<Rightarrow> string list" where
  "rowIdentitiesOfSection P s =
     (case map_of (rev (zip (sectionIdentities P) (rowIdentities P))) s of
        Some rows \<Rightarrow> rows
      | None \<Rightarrow> [])"



section \<open>Example data\<close>

text \<open>
  A data source configured with value inequality as row comparator and nothing else,
  as \<open>new ListViewDataSource({rowHasChanged: (a, b) => a !== b})\<close> builds it, and the
  snapshot of its first \<open>cloneWithRows({a: 'A', b: 'B', c: 'C'})\<close>.
\<close>

definition example_params :: ParamType where
  "example_params =
     \<lparr> p_rowHasChanged = Some (\<lambda>prev next. prev \<noteq> next),
       p_getRowData = None,
       p_sectionHeaderHasChanged = None,
       p_getSectionHeaderData = None \<rparr>"

definition example_fresh :: ListViewDataSource where
  "example_fresh =
     \<lparr> m_rowHasChanged = (\<lambda>prev next. prev \<noteq> next),
       m_getRowData = defaultGetRowData,
       m_sectionHeaderHasChanged = None,
       m_getSectionHeaderData = Some defaultGetSectionHeaderData,
       m_dataBlob = JNull,
       m_dirtyRows = [],
       m_dirtySections = [],
       m_cachedRowCount = 0,
       rowIdentities = [],
       sectionIdentities = [] \<rparr>"

definition example_rows :: jsval where
  "example_rows = JObj [(''a'', JStr ''A''), (''b'', JStr ''B''), (''c'', JStr ''C'')]"

definition example_snapshot :: ListViewDataSource where
  "example_snapshot =
     \<lparr> m_rowHasChanged = (\<lambda>prev next. prev \<noteq> next),
       m_getRowData = defaultGetRowData,
       m_sectionHeaderHasChanged = Some (\<lambda>prev next. False),
       m_getSectionHeaderData = Some defaultGetSectionHeaderData,
       m_dataBlob = JObj [(''s1'', example_rows)],
       m_dirtyRows = [[True, True, True]],
       m_dirtySections = [True],
       m_cachedRowCount = 3,
       rowIdentities = [[''a'', ''b'', ''c'']],
       sectionIdentities = [''s1''] \<rparr>"

text \<open>
  A data source configured with both comparators, as
  \<open>new ListViewDataSource({rowHasChanged: (a, b) => a !== b,
  sectionHeaderHasChanged: (a, b) => a !== b})\<close> builds it.
\<close>

definition example_params_sections :: ParamType where
  "example_params_sections =
     \<lparr> p_rowHasChanged = Some (\<lambda>prev next. prev \<noteq> next),
       p_getRowData = None,
       p_sectionHeaderHasChanged = Some (\<lambda>prev next. prev \<noteq> next),
       p_getSectionHeaderData = None \<rparr>"

definition example_fresh_sections :: ListViewDataSource where
  "example_fresh_sections =
     \<lparr> m_rowHasChanged = (\<lambda>prev next. prev \<noteq> next),
       m_getRowData = defaultGetRowData,
       m_sectionHeaderHasChanged = Some (\<lambda>prev next. prev \<noteq> next),
       m_getSectionHeaderData = Some defaultGetSectionHeaderData,
       m_dataBlob = JNull,
       m_dirtyRows = [],
       m_dirtySections = [],
       m_cachedRowCount = 0,
       rowIdentities = [],
       sectionIdentities = [] \<rparr>"

text \<open>
  The snapshot of \<open>cloneWithRows({a: 'A', c: 'C', d: 'D'})\<close> on the example snapshot:
  row \<open>b\<close> is gone and row \<open>d\<close> is new.
\<close>

definition example_rows2 :: jsval where
  "example_rows2 = JObj [(''a'', JStr ''A''), (''c'', JStr ''C''), (''d'', JStr ''D'')]"

definition example_snapshot2 :: ListViewDataSource where
  "example_snapshot2 =
     \<lparr> m_rowHasChanged = (\<lambda>prev next. prev \<noteq> next),
       m_getRowData = defaultGetRowData,
       m_sectionHeaderHasChanged = Some (\<lambda>prev next. False),
       m_getSectionHeaderData = Some defaultGetSectionHeaderData,
       m_dataBlob = JObj [(''s1'', example_rows2)],
       m_dirtyRows = [[False, False, True]],
       m_dirtySections = [False],
       m_cachedRowCount = 3,
       rowIdentities = [[''a'', ''c'', ''d'']],
       sectionIdentities = [''s1''] \<rparr>"

text \<open>
  A data source whose two comparators are the constant-false function, and the snapshot
  of its first clone of \<open>{a: {x: 1, y: 2}, b: {z: 3}}\<close> with the section identities
  \<open>['a', 'b']\<close> and the row identities \<open>[['x', 'y'], ['z']]\<close>.
\<close>

definition example_params_never :: ParamType where
  "example_params_never =
     \<lparr> p_rowHasChanged = Some (\<lambda>prev next. False),
       p_getRowData = None,
       p_sectionHeaderHasChanged = Some (\<lambda>prev next. False),
       p_getSectionHeaderData = None \<rparr>"

definition example_fresh_never :: ListViewDataSource where
  "example_fresh_never =
     \<lparr> m_rowHasChanged = (\<lambda>prev next. False),
       m_getRowData = defaultGetRowData,
       m_sectionHeaderHasChanged = Some (\<lambda>prev next. False),
       m_getSectionHeaderData = Some defaultGetSectionHeaderData,
       m_dataBlob = JNull,
       m_dirtyRows = [],
       m_dirtySections = [],
       m_cachedRowCount = 0,
       rowIdentities = [],
       sectionIdentities = [] \<rparr>"

definition example_sections_blob :: jsval where
  "example_sections_blob =
     JObj [(''a'', JObj [(''x'', JNum 1), (''y'', JNum 2)]), (''b'', JObj [(''z'', JNum 3)])]"

definition example_sections_snapshot :: ListViewDataSource where
  "example_sections_snapshot =
     example_fresh_never
       \<lparr> m_dataBlob := example_sections_blob,
         m_dirtyRows := [[True, True], [True]],
         m_dirtySections := [True, True],
         m_cachedRowCount := 3,
         rowIdentities := [[''x'', ''y''], [''z'']],
         sectionIdentities := [''a'', ''b''] \<rparr>"

text \<open>
  The same data source after a first clone that lists the section \<open>a\<close> twice, once with
  the row \<open>x\<close> and once with the row \<open>y\<close>.
\<close>

definition example_duplicate_snapshot :: ListViewDataSource where
  "example_duplicate_snapshot =
     example_fresh_never
       \<lparr> m_dataBlob := example_sections_blob,
         m_dirtyRows := [[True], [True]],
         m_dirtySections := [True, True],
         m_cachedRowCount := 2,
         rowIdentities := [[''x''], [''y'']],
         sectionIdentities := [''a'', ''a''] \<rparr>"



text \<open>
  The same data source after a first clone of \<open>{a: {x: 1}}\<close> that gives the section \<open>a\<close>
  and two row lists, the second for no section; and the snapshot of the clone of that
  one with \<open>{a: {x: 1, v: 5}}\<close>, the section \<open>a\<close> and the rows \<open>x\<close> and \<open>v\<close>.
\<close>

definition example_extra_rows_blob :: jsval where
  "example_extra_rows_blob = JObj [(''a'', JObj [(''x'', JNum 1)])]"

definition example_extra_rows_snapshot :: ListViewDataSource where
  "example_extra_rows_snapshot =
     example_fresh_never
       \<lparr> m_dataBlob := example_extra_rows_blob,
         m_dirtyRows := [[True]],
         m_dirtySections := [True],
         m_cachedRowCount := 3,
         rowIdentities := [[''x''], [''z'', ''w'']],
         sectionIdentities := [''a''] \<rparr>"



text \<open>
  A data source with both comparators and a header extractor that returns the
  section identity, as \<open>new ListViewDataSource({rowHasChanged: (a, b) => a !== b,
  sectionHeaderHasChanged: (a, b) => a !== b, getSectionHeaderData: (blob, id) => id})\<close>
  builds it.
\<close>

definition example_params_header :: ParamType where
  "example_params_header =
     \<lparr> p_rowHasChanged = Some (\<lambda>prev next. prev \<noteq> next),
       p_getRowData = None,
       p_sectionHeaderHasChanged = Some (\<lambda>prev next. prev \<noteq> next),
       p_getSectionHeaderData =
         Some (\<lambda>dataBlob sectionID.
                 Some (case sectionID of None \<Rightarrow> JUndefined | Some s \<Rightarrow> JStr s)) \<rparr>"

definition example_fresh_header :: ListViewDataSource where
  "example_fresh_header =
     \<lparr> m_rowHasChanged = (\<lambda>prev next. prev \<noteq> next),
       m_getRowData = defaultGetRowData,
       m_sectionHeaderHasChanged = Some (\<lambda>prev next. prev \<noteq> next),
       m_getSectionHeaderData =
         Some (\<lambda>dataBlob sectionID.
                 Some (case sectionID of None \<Rightarrow> JUndefined | Some s \<Rightarrow> JStr s)),
       m_dataBlob = JNull,
       m_dirtyRows = [],
       m_dirtySections = [],
       m_cachedRowCount = 0,
       rowIdentities = [],
       sectionIdentities = [] \<rparr>"

section \<open>Facts about the helpers and the loops\<close>

lemma keyedDictionaryFromArray_loop_apply:
  "keyedDictionaryFromArray_loop arr result k = (if k \<in> set arr then Some True else result k)"
  by (induction arr arbitrary: result) auto

lemma keyedDictionaryFromArray_apply:
  "keyedDictionaryFromArray arr k = (if k \<in> set arr then Some True else None)"
  by (simp add: keyedDictionaryFromArray_def keyedDictionaryFromArray_loop_apply)

lemma dictRead_keyedDictionaryFromArray:
  "dictRead (keyedDictionaryFromArray arr) k \<longleftrightarrow> k \<in> set arr \<or> inheritedName k"
  by (simp add: keyedDictionaryFromArray_apply dictRead_def)

lemma ordinary_names:
  "\<not> inheritedName ''s1''" "\<not> inheritedName ''undefined''"
  by (simp_all add: inheritedName_def objectPrototypeKeys_def)

lemma countRows_loop_sum: "countRows_loop allRowIDs n = n + sum_list (map length allRowIDs)"
  by (induction allRowIDs arbitrary: n) auto

lemma countRows_sum: "countRows allRowIDs = sum_list (map length allRowIDs)"
  by (simp add: countRows_def countRows_loop_sum)

lemma prevRowsHash_loop_apply:
  "length rowIDs \<le> length sectionIDs \<or> s \<noteq> ''undefined'' \<Longrightarrow>
   prevRowsHash_loop sectionIDs rowIDs h s =
     (case map_of (rev (zip sectionIDs rowIDs)) s of
        Some rows \<Rightarrow> Some (keyedDictionaryFromArray rows)
      | None \<Rightarrow> h s)"
proof (induction sectionIDs rowIDs h rule: prevRowsHash_loop.induct)
  case (1 sectionIDs prevRowsHash)
  then show ?case by simp
next
  case (2 rowIDs rest prevRowsHash)
  let ?h = "prevRowsHash(''undefined'' \<mapsto> keyedDictionaryFromArray rowIDs)"
  from 2 have u: "s \<noteq> ''undefined''" by simp
  then have len: "length rest \<le> length ([]::string list) \<or> s \<noteq> ''undefined''" by simp
  have "prevRowsHash_loop [] (rowIDs # rest) prevRowsHash s = prevRowsHash_loop [] rest ?h s"
    by (simp only: prevRowsHash_loop.simps)
  also have "\<dots> = (case map_of (rev (zip [] rest)) s of
        Some rows \<Rightarrow> Some (keyedDictionaryFromArray rows)
      | None \<Rightarrow> ?h s)"
    by (rule "2.IH"[OF len])
  also have "\<dots> = (case map_of (rev (zip [] (rowIDs # rest))) s of
        Some rows \<Rightarrow> Some (keyedDictionaryFromArray rows)
      | None \<Rightarrow> prevRowsHash s)"
    using u by simp
  finally show ?case .
next
  case (3 sectionID sectionIDs rowIDs rest prevRowsHash)
  let ?h = "prevRowsHash(sectionID \<mapsto> keyedDictionaryFromArray rowIDs)"
  from 3 have len: "length rest \<le> length sectionIDs \<or> s \<noteq> ''undefined''" by auto
  have "prevRowsHash_loop (sectionID # sectionIDs) (rowIDs # rest) prevRowsHash s =
        prevRowsHash_loop sectionIDs rest ?h s"
    by simp
  also have "\<dots> = (case map_of (rev (zip sectionIDs rest)) s of
        Some rows \<Rightarrow> Some (keyedDictionaryFromArray rows)
      | None \<Rightarrow> ?h s)"
    by (rule "3.IH"[OF len])
  also have "\<dots> = (case map_of (rev (zip (sectionID # sectionIDs) (rowIDs # rest))) s of
        Some rows \<Rightarrow> Some (keyedDictionaryFromArray rows)
      | None \<Rightarrow> prevRowsHash s)"
    by (simp add: map_add_def split: option.splits)
  finally show ?case .
qed

lemma dirtyRows_loop_Inr:
  "dirtyRows_loop this pb psh prh s rows = (t, Inr bits) \<Longrightarrow>
   length bits = length rows \<and>
   (\<forall>j<length rows. rowDirty this pb psh prh s (rows ! j) =
       (fst (rowDirty this pb psh prh s (rows ! j)), Inr (bits ! j))) \<and>
   t = concat (map (\<lambda>r. fst (rowDirty this pb psh prh s r)) rows)"
proof (induction rows arbitrary: t bits)
  case Nil
  then show ?case by simp
next
  case (Cons rowID rest)
  from Cons.prems obtain t1 d t2 bs where
    a: "rowDirty this pb psh prh s rowID = (t1, Inr d)" and
    b: "dirtyRows_loop this pb psh prh s rest = (t2, Inr bs)" and
    c: "t = t1 @ t2" "bits = d # bs"
    by (auto split: prod.splits sum.splits)
  from Cons.IH[OF b] a c show ?case
    by (auto simp: nth_Cons split: nat.splits)
qed

lemma dirtyRows_loop_total:
  "(\<forall>r\<in>set rows. \<exists>t b. rowDirty this pb psh prh s r = (t, Inr b)) \<Longrightarrow>
   \<exists>t bits. dirtyRows_loop this pb psh prh s rows = (t, Inr bits)"
  by (induction rows) (auto split: prod.splits sum.splits)

lemma dirtySections_loop_Inr:
  "dirtySections_loop this pb psh prh ss rs = (t, Inr (ds, dr)) \<Longrightarrow>
   length ss \<le> length rs \<and> length ds = length ss \<and> length dr = length ss \<and>
   (\<forall>i<length ss. sectionDirty this pb psh (ss ! i) =
       (fst (sectionDirty this pb psh (ss ! i)), Inr (ds ! i))) \<and>
   (\<forall>i<length ss. dirtyRows_loop this pb psh prh (ss ! i) (rs ! i) =
       (fst (dirtyRows_loop this pb psh prh (ss ! i) (rs ! i)), Inr (dr ! i))) \<and>
   t = concat (map (\<lambda>(s, rows). fst (sectionDirty this pb psh s) @
                                 fst (dirtyRows_loop this pb psh prh s rows)) (zip ss rs))"
proof (induction ss arbitrary: rs t ds dr)
  case Nil
  then show ?case by simp
next
  case (Cons sectionID sections)
  from Cons.prems obtain t1 d rows rest t2 bits t3 ds' dr' where
    a: "sectionDirty this pb psh sectionID = (t1, Inr d)" and
    r: "rs = rows # rest" and
    b: "dirtyRows_loop this pb psh prh sectionID rows = (t2, Inr bits)" and
    c: "dirtySections_loop this pb psh prh sections rest = (t3, Inr (ds', dr'))" and
    e: "t = t1 @ t2 @ t3" "ds = d # ds'" "dr = bits # dr'"
    by (auto split: prod.splits sum.splits list.splits)
  from Cons.IH[OF c] a b r e show ?case
    by (auto simp: nth_Cons split: nat.splits)
qed

lemma dirtySections_loop_total:
  "length ss \<le> length rs \<Longrightarrow>
   (\<forall>s\<in>set ss. \<exists>t b. sectionDirty this pb psh s = (t, Inr b)) \<Longrightarrow>
   (\<forall>(s, rows)\<in>set (zip ss rs). \<exists>t bits. dirtyRows_loop this pb psh prh s rows = (t, Inr bits)) \<Longrightarrow>
   \<exists>t ds dr. dirtySections_loop this pb psh prh ss rs = (t, Inr (ds, dr))"
proof (induction ss arbitrary: rs)
  case Nil
  then show ?case by simp
next
  case (Cons s ss)
  then obtain rows rest where r: "rs = rows # rest" by (cases rs) auto
  with Cons.prems have "\<exists>t ds dr. dirtySections_loop this pb psh prh ss rest = (t, Inr (ds, dr))"
    by (intro Cons.IH) auto
  with Cons.prems r show ?case
    by (fastforce split: prod.splits sum.splits)
qed

lemmas clone_defs = cloneWithRows_def cloneWithRowsAndSections_def new_ListViewDataSource_def
  calculateDirtyArrays_def sectionDirty_def rowDirty_def rowChanged_def dictRead_def
  inheritedName_def objectPrototypeKeys_def countRows_def
  keyedDictionaryFromArray_def Let_def

lemma example_fresh_built: "new_ListViewDataSource (Some example_params) = Inr example_fresh"
  by (simp add: new_ListViewDataSource_def example_params_def example_fresh_def)

lemma example_fresh_never_built:
  "new_ListViewDataSource (Some example_params_never) = Inr example_fresh_never"
  by (simp add: new_ListViewDataSource_def example_params_never_def example_fresh_never_def)

lemma example_sections_snapshot_built:
  "cloneWithRowsAndSections example_fresh_never example_sections_blob
      (Some [''a'', ''b'']) (Some [[''x'', ''y''], [''z'']]) =
     (example_fresh_never, [], Inr example_sections_snapshot)"
  by (simp add: clone_defs example_fresh_never_def example_sections_snapshot_def)

lemma example_duplicate_snapshot_built:
  "cloneWithRowsAndSections example_fresh_never example_sections_blob
      (Some [''a'', ''a'']) (Some [[''x''], [''y'']]) =
     (example_fresh_never, [], Inr example_duplicate_snapshot)"
  by (simp add: clone_defs example_fresh_never_def example_duplicate_snapshot_def)

lemma example_fresh_sections_built:
  "new_ListViewDataSource (Some example_params_sections) = Inr example_fresh_sections"
  by (simp add: new_ListViewDataSource_def example_params_sections_def example_fresh_sections_def)

lemma example_extra_rows_snapshot_built:
  "cloneWithRowsAndSections example_fresh_never example_extra_rows_blob
      (Some [''a'']) (Some [[''x''], [''z'', ''w'']]) =
     (example_fresh_never, [], Inr example_extra_rows_snapshot)"
  by (simp add: clone_defs example_fresh_never_def example_extra_rows_snapshot_def)



lemma example_snapshot_built:
  "cloneWithRows example_fresh example_rows None =
     (example_fresh\<lparr>m_sectionHeaderHasChanged := Some (\<lambda>prev next. False)\<rparr>, [], Inr example_snapshot)"
  by (simp add: clone_defs example_fresh_def example_rows_def example_snapshot_def)

section \<open>Flat offsets outside the range\<close>

text \<open>
  C6. The claim: for every flat offset outside \<open>[0, totalRowCount)\<close>, negative ones
  included, \<open>getRowIDForFlatIndex\<close> and \<open>getSectionIDForFlatIndex\<close> return the absence value
  and never an identity of the snapshot. The code at a negative offset: on the snapshot
  of \<open>cloneWithRows({a: 'A', b: 'B', c: 'C'})\<close>, which has three rows, the offset \<open>-1\<close>
  resolves to the section identity \<open>s1\<close>, and its row identity reads as \<open>undefined\<close>, not
  \<open>null\<close>.
\<close>

theorem C6_negative_offset:
  "new_ListViewDataSource (Some example_params) = Inr example_fresh \<and>
   snd (snd (cloneWithRows example_fresh example_rows None)) = Inr example_snapshot \<and>
   getRowCount example_snapshot = 3 \<and>
   getSectionIDForFlatIndex example_snapshot (- 1) = Inr (JStr ''s1'') \<and>
   getRowIDForFlatIndex example_snapshot (- 1) = Inr JUndefined"
  by (simp add: example_fresh_built example_snapshot_built getRowCount_def
      getSectionIDForFlatIndex_def getRowIDForFlatIndex_def example_snapshot_def arrayGet_def)

section \<open>The row-dirty query\<close>

text \<open>
  C7. The claim: \<open>rowShouldUpdate\<close> returns the cached bit within the bounds of the
  snapshot, and outside them emits a diagnostic and does not throw. The code at a
  section index out of bounds: on the one-section snapshot of the example,
  \<open>rowShouldUpdate(1, 0)\<close> raises a \<open>TypeError\<close> and reports nothing, where
  \<open>sectionHeaderShouldUpdate(1)\<close> reports and returns.
\<close>

theorem C7_section_out_of_bounds:
  "snd (snd (cloneWithRows example_fresh example_rows None)) = Inr example_snapshot \<and>
   sectionIdentities example_snapshot = [''s1''] \<and>
   rowShouldUpdate example_snapshot 1 0 = ([], Inl TypeError) \<and>
   sectionHeaderShouldUpdate example_snapshot 1 = ([MissingDirtyBitSection 1], None)"
  by (simp add: example_snapshot_built rowShouldUpdate_def sectionHeaderShouldUpdate_def
      example_snapshot_def arrayGet_def warning_def)

text \<open>What \<open>rowShouldUpdate\<close> does in each of the three regions of its arguments.\<close>

lemma rowShouldUpdate_in_bounds:
  "0 \<le> i \<Longrightarrow> i < int (length (m_dirtyRows this)) \<Longrightarrow>
   0 \<le> j \<Longrightarrow> j < int (length (m_dirtyRows this ! nat i)) \<Longrightarrow>
   rowShouldUpdate this i j = ([], Inr (Some (m_dirtyRows this ! nat i ! nat j)))"
  by (simp add: rowShouldUpdate_def arrayGet_def warning_def)

lemma rowShouldUpdate_row_out_of_bounds:
  "0 \<le> i \<Longrightarrow> i < int (length (m_dirtyRows this)) \<Longrightarrow>
   j < 0 \<or> int (length (m_dirtyRows this ! nat i)) \<le> j \<Longrightarrow>
   rowShouldUpdate this i j = ([MissingDirtyBitRow i j], Inr None)"
  by (auto simp: rowShouldUpdate_def arrayGet_def warning_def)

lemma rowShouldUpdate_section_out_of_bounds:
  "i < 0 \<or> int (length (m_dirtyRows this)) \<le> i \<Longrightarrow>
   rowShouldUpdate this i j = ([], Inl TypeError)"
  by (auto simp: rowShouldUpdate_def arrayGet_def)

section \<open>The exceptions of a diff pass\<close>







section \<open>What a clone returns\<close>

text \<open>
  The loops read only the comparators, the extractors and the blob of the new source,
  so the two bitmap assignments that end the pass do not change what they compute.
\<close>

lemma sectionDirty_cong:
  assumes "m_sectionHeaderHasChanged x = m_sectionHeaderHasChanged y"
    and "m_getSectionHeaderData x = m_getSectionHeaderData y"
    and "m_dataBlob x = m_dataBlob y"
  shows "sectionDirty x pb psh s = sectionDirty y pb psh s"
  unfolding sectionDirty_def assms by (rule refl)

lemma rowDirty_cong:
  assumes "m_rowHasChanged x = m_rowHasChanged y"
    and "m_getRowData x = m_getRowData y"
    and "m_dataBlob x = m_dataBlob y"
  shows "rowDirty x pb psh prh s r = rowDirty y pb psh prh s r"
  unfolding rowDirty_def rowChanged_def assms by (rule refl)

lemma dirtyRows_loop_cong:
  "m_rowHasChanged x = m_rowHasChanged y \<Longrightarrow>
   m_getRowData x = m_getRowData y \<Longrightarrow>
   m_dataBlob x = m_dataBlob y \<Longrightarrow>
   dirtyRows_loop x pb psh prh s rows = dirtyRows_loop y pb psh prh s rows"
  by (induction rows) (simp_all add: rowDirty_cong[of x y])

lemma dirtySections_loop_cong:
  assumes "m_rowHasChanged x = m_rowHasChanged y"
    and "m_getRowData x = m_getRowData y"
    and "m_sectionHeaderHasChanged x = m_sectionHeaderHasChanged y"
    and "m_getSectionHeaderData x = m_getSectionHeaderData y"
    and "m_dataBlob x = m_dataBlob y"
  shows "dirtySections_loop x pb psh prh ss rs = dirtySections_loop y pb psh prh ss rs"
proof (induction ss arbitrary: rs)
  case Nil
  show ?case by simp
next
  case (Cons s ss)
  have a: "sectionDirty x pb psh s = sectionDirty y pb psh s"
    by (rule sectionDirty_cong) (fact assms)+
  have b: "\<And>rows. dirtyRows_loop x pb psh prh s rows = dirtyRows_loop y pb psh prh s rows"
    by (rule dirtyRows_loop_cong) (fact assms)+
  show ?case by (simp only: dirtySections_loop.simps a b Cons.IH)
qed

lemma cloneWithRowsAndSections_Inr:
  assumes "cloneWithRowsAndSections this blob sids rids = (this', t, Inr N)"
  shows "this' = this"
    and "m_sectionHeaderHasChanged this \<noteq> None"
    and "(case sids of Some s \<Rightarrow> Some s | None \<Rightarrow> objectKeys blob) = Some (sectionIdentities N)"
    and "(case rids of Some r \<Rightarrow> Some r
          | None \<Rightarrow> rowIdentitiesFromBlob blob (sectionIdentities N)) = Some (rowIdentities N)"
    and "m_dataBlob N = blob"
    and "m_cachedRowCount N = countRows (rowIdentities N)"
    and "m_rowHasChanged N = m_rowHasChanged this"
    and "m_getRowData N = m_getRowData this"
    and "m_sectionHeaderHasChanged N = m_sectionHeaderHasChanged this"
    and "m_getSectionHeaderData N =
           Some (case m_getSectionHeaderData this of
                   Some g \<Rightarrow> g | None \<Rightarrow> defaultGetSectionHeaderData)"
    and "dirtySections_loop N (m_dataBlob this)
           (keyedDictionaryFromArray (sectionIdentities this))
           (prevRowsHash_loop (sectionIdentities this) (rowIdentities this) Map.empty)
           (sectionIdentities N) (rowIdentities N) = (t, Inr (m_dirtySections N, m_dirtyRows N))"
proof -
  from assms obtain shc where shc: "m_sectionHeaderHasChanged this = Some shc"
    by (cases "m_sectionHeaderHasChanged this") (auto simp: cloneWithRowsAndSections_def)
  define N0 where "N0 =
     \<lparr> m_rowHasChanged = m_rowHasChanged this,
       m_getRowData = m_getRowData this,
       m_sectionHeaderHasChanged = m_sectionHeaderHasChanged this,
       m_getSectionHeaderData =
         Some (case m_getSectionHeaderData this of
                 Some g \<Rightarrow> g | None \<Rightarrow> defaultGetSectionHeaderData),
       m_dataBlob = JNull, m_dirtyRows = [], m_dirtySections = [], m_cachedRowCount = 0,
       rowIdentities = [], sectionIdentities = [] \<rparr>"
  have new: "new_ListViewDataSource (Some
                  \<lparr> p_rowHasChanged = Some (m_rowHasChanged this),
                    p_getRowData = Some (m_getRowData this),
                    p_sectionHeaderHasChanged = m_sectionHeaderHasChanged this,
                    p_getSectionHeaderData = m_getSectionHeaderData this \<rparr>) = Inr N0"
    by (simp add: new_ListViewDataSource_def N0_def)
  from assms shc new obtain S where S: "(case sids of Some s \<Rightarrow> Some s | None \<Rightarrow> objectKeys blob) = Some S"
    by (cases "case sids of Some s \<Rightarrow> Some s | None \<Rightarrow> objectKeys blob")
       (auto simp: cloneWithRowsAndSections_def)
  from assms shc new S obtain R where
    R: "(case rids of Some r \<Rightarrow> Some r | None \<Rightarrow> rowIdentitiesFromBlob blob S) = Some R"
    by (cases "case rids of Some r \<Rightarrow> Some r | None \<Rightarrow> rowIdentitiesFromBlob blob S")
       (auto simp: cloneWithRowsAndSections_def)
  define N1 where "N1 = N0\<lparr> m_dataBlob := blob, sectionIdentities := S,
                             rowIdentities := R, m_cachedRowCount := countRows R \<rparr>"
  from assms shc new S R have c: "calculateDirtyArrays N1 (m_dataBlob this)
        (sectionIdentities this) (rowIdentities this) = (t, Inr N)" and th: "this' = this"
    by (auto simp: cloneWithRowsAndSections_def N1_def split: prod.splits)
  then obtain ds dr where
    l: "dirtySections_loop N1 (m_dataBlob this)
           (keyedDictionaryFromArray (sectionIdentities this))
           (prevRowsHash_loop (sectionIdentities this) (rowIdentities this) Map.empty)
           (sectionIdentities N1) (rowIdentities N1) = (t, Inr (ds, dr))" and
    N: "N = N1\<lparr>m_dirtySections := ds, m_dirtyRows := dr\<rparr>"
    by (auto simp: calculateDirtyArrays_def Let_def split: prod.splits sum.splits)
  have SN: "sectionIdentities N = S" and RN: "rowIdentities N = R"
    by (simp_all add: N N1_def)
  show "this' = this" by (rule th)
  show "m_sectionHeaderHasChanged this \<noteq> None" using shc by simp
  show "(case sids of Some s \<Rightarrow> Some s | None \<Rightarrow> objectKeys blob) = Some (sectionIdentities N)"
    using S unfolding SN .
  show "(case rids of Some r \<Rightarrow> Some r
          | None \<Rightarrow> rowIdentitiesFromBlob blob (sectionIdentities N)) = Some (rowIdentities N)"
    using R unfolding SN RN .
  show "m_dataBlob N = blob" by (simp add: N N1_def)
  show "m_cachedRowCount N = countRows (rowIdentities N)" by (simp add: N N1_def)
  show "m_rowHasChanged N = m_rowHasChanged this" by (simp add: N N1_def N0_def)
  show "m_getRowData N = m_getRowData this" by (simp add: N N1_def N0_def)
  show "m_sectionHeaderHasChanged N = m_sectionHeaderHasChanged this" by (simp add: N N1_def N0_def)
  show "m_getSectionHeaderData N =
           Some (case m_getSectionHeaderData this of
                   Some g \<Rightarrow> g | None \<Rightarrow> defaultGetSectionHeaderData)"
    by (simp add: N N1_def N0_def)
  have "dirtySections_loop N (m_dataBlob this)
           (keyedDictionaryFromArray (sectionIdentities this))
           (prevRowsHash_loop (sectionIdentities this) (rowIdentities this) Map.empty)
           (sectionIdentities N) (rowIdentities N) =
        dirtySections_loop N1 (m_dataBlob this)
           (keyedDictionaryFromArray (sectionIdentities this))
           (prevRowsHash_loop (sectionIdentities this) (rowIdentities this) Map.empty)
           (sectionIdentities N) (rowIdentities N)"
    by (rule dirtySections_loop_cong) (simp_all add: N)
  then show "dirtySections_loop N (m_dataBlob this)
           (keyedDictionaryFromArray (sectionIdentities this))
           (prevRowsHash_loop (sectionIdentities this) (rowIdentities this) Map.empty)
           (sectionIdentities N) (rowIdentities N) = (t, Inr (m_dirtySections N, m_dirtyRows N))"
    using l by (simp add: N)
qed

lemma cloneWithRowsAndSections_total:
  assumes "m_sectionHeaderHasChanged this \<noteq> None"
    and "(case sids of Some s \<Rightarrow> Some s | None \<Rightarrow> objectKeys blob) = Some S"
    and "(case rids of Some r \<Rightarrow> Some r | None \<Rightarrow> rowIdentitiesFromBlob blob S) = Some R"
    and "\<And>X. m_rowHasChanged X = m_rowHasChanged this \<Longrightarrow>
              m_getRowData X = m_getRowData this \<Longrightarrow>
              m_sectionHeaderHasChanged X = m_sectionHeaderHasChanged this \<Longrightarrow>
              m_getSectionHeaderData X =
                Some (case m_getSectionHeaderData this of
                        Some g \<Rightarrow> g | None \<Rightarrow> defaultGetSectionHeaderData) \<Longrightarrow>
              m_dataBlob X = blob \<Longrightarrow>
           \<exists>ds dr. dirtySections_loop X (m_dataBlob this)
             (keyedDictionaryFromArray (sectionIdentities this))
             (prevRowsHash_loop (sectionIdentities this) (rowIdentities this) Map.empty)
             S R = (t, Inr (ds, dr))"
  shows "\<exists>N. cloneWithRowsAndSections this blob sids rids = (this, t, Inr N)"
proof -
  from assms(1) obtain shc where shc: "m_sectionHeaderHasChanged this = Some shc" by auto
  define N1 where "N1 =
     \<lparr> m_rowHasChanged = m_rowHasChanged this,
       m_getRowData = m_getRowData this,
       m_sectionHeaderHasChanged = m_sectionHeaderHasChanged this,
       m_getSectionHeaderData =
         Some (case m_getSectionHeaderData this of
                 Some g \<Rightarrow> g | None \<Rightarrow> defaultGetSectionHeaderData),
       m_dataBlob = blob, m_dirtyRows = [], m_dirtySections = [],
       m_cachedRowCount = countRows R,
       rowIdentities = R, sectionIdentities = S \<rparr>"
  have "\<exists>ds dr. dirtySections_loop N1 (m_dataBlob this)
             (keyedDictionaryFromArray (sectionIdentities this))
             (prevRowsHash_loop (sectionIdentities this) (rowIdentities this) Map.empty)
             S R = (t, Inr (ds, dr))"
    by (rule assms(4)) (simp_all add: N1_def)
  then obtain ds dr where "dirtySections_loop N1 (m_dataBlob this)
             (keyedDictionaryFromArray (sectionIdentities this))
             (prevRowsHash_loop (sectionIdentities this) (rowIdentities this) Map.empty)
             S R = (t, Inr (ds, dr))" by blast
  then show ?thesis
    using shc assms(2,3)
    by (simp add: cloneWithRowsAndSections_def new_ListViewDataSource_def
        calculateDirtyArrays_def Let_def N1_def)
qed

section \<open>The single-section clone\<close>

lemma getSectionIDForFlatIndex_loop_single:
  "0 \<le> f \<Longrightarrow> f < int (length rows) \<Longrightarrow>
   getSectionIDForFlatIndex_loop [s] (rows # rest) f = Inr (JStr s)"
  by simp

lemma cloneWithRows_Inr:
  assumes "cloneWithRows this blob rowIDs = (this', t, Inr N)"
  shows "sectionIdentities N = [''s1'']"
    and "\<exists>rows. rowIdentities N = [rows]"
    and "m_dataBlob N = JObj [(''s1'', blob)]"
    and "m_cachedRowCount N = countRows (rowIdentities N)"
proof -
  let ?recv = "if m_sectionHeaderHasChanged this = None
               then this\<lparr>m_sectionHeaderHasChanged := Some (\<lambda>prev next. False)\<rparr> else this"
  from assms have c: "cloneWithRowsAndSections ?recv (JObj [(''s1'', blob)]) (Some [''s1''])
      (case rowIDs of Some r \<Rightarrow> Some [r] | None \<Rightarrow> None) = (this', t, Inr N)"
    by (simp add: cloneWithRows_def Let_def)
  from cloneWithRowsAndSections_Inr(3)[OF c] show S: "sectionIdentities N = [''s1'']" by simp
  from cloneWithRowsAndSections_Inr(4)[OF c, unfolded S, symmetric]
  show "\<exists>rows. rowIdentities N = [rows]"
    by (cases rowIDs) (auto split: option.splits)
  from cloneWithRowsAndSections_Inr(5)[OF c] show "m_dataBlob N = JObj [(''s1'', blob)]" .
  from cloneWithRowsAndSections_Inr(6)[OF c] show "m_cachedRowCount N = countRows (rowIdentities N)" .
qed

lemma dirtyRows_loop_new_section:
  "\<not> dictRead psh s \<Longrightarrow>
   dirtyRows_loop this pb psh prh s rows = ([], Inr (replicate (length rows) True))"
  by (induction rows) (simp_all add: rowDirty_def)

lemma dirtySections_loop_no_predecessor:
  "\<forall>s\<in>set ss. \<not> dictRead psh s \<Longrightarrow> length ss \<le> length rs \<Longrightarrow>
   dirtySections_loop this pb psh prh ss rs =
     ([], Inr (replicate (length ss) True,
               map (\<lambda>rows. replicate (length rows) True) (take (length ss) rs)))"
proof (induction ss arbitrary: rs)
  case Nil
  show ?case by simp
next
  case (Cons s ss)
  then obtain rows rest where r: "rs = rows # rest" by (cases rs) auto
  with Cons.prems have "dirtySections_loop this pb psh prh ss rest =
     ([], Inr (replicate (length ss) True,
               map (\<lambda>rows. replicate (length rows) True) (take (length ss) rest)))"
    by (intro Cons.IH) auto
  with Cons.prems(1) r show ?case
    by (simp add: sectionDirty_def dirtyRows_loop_new_section)
qed

lemma cloneWithRows_fresh_total:
  assumes "sectionIdentities this = []"
    and "rowIDs \<noteq> None \<or> objectKeys blob \<noteq> None"
  shows "\<exists>this' N. cloneWithRows this blob rowIDs = (this', [], Inr N)"
proof -
  let ?recv = "if m_sectionHeaderHasChanged this = None
               then this\<lparr>m_sectionHeaderHasChanged := Some (\<lambda>prev next. False)\<rparr> else this"
  from assms(2) obtain R where R: "(case (case rowIDs of Some r \<Rightarrow> Some [r] | None \<Rightarrow> None) of
      Some r \<Rightarrow> Some r | None \<Rightarrow> rowIdentitiesFromBlob (JObj [(''s1'', blob)]) [''s1'']) = Some [R]"
    by (cases rowIDs) auto
  have "\<exists>N. cloneWithRowsAndSections ?recv (JObj [(''s1'', blob)]) (Some [''s1''])
      (case rowIDs of Some r \<Rightarrow> Some [r] | None \<Rightarrow> None) = (?recv, [], Inr N)"
  proof (rule cloneWithRowsAndSections_total[OF _ _ R])
    show "m_sectionHeaderHasChanged ?recv \<noteq> None" by simp
    show "(case Some [''s1''] of Some s \<Rightarrow> Some s | None \<Rightarrow> objectKeys (JObj [(''s1'', blob)])) = Some [''s1'']"
      by simp
    fix X :: ListViewDataSource
    have "dirtySections_loop X (m_dataBlob ?recv)
             (keyedDictionaryFromArray (sectionIdentities ?recv))
             (prevRowsHash_loop (sectionIdentities ?recv) (rowIdentities ?recv) Map.empty)
             [''s1''] [R] = ([], Inr (replicate (length [''s1'']) True,
               map (\<lambda>rows. replicate (length rows) True) (take (length [''s1'']) [R])))"
      by (rule dirtySections_loop_no_predecessor)
         (simp_all add: assms(1) dictRead_keyedDictionaryFromArray ordinary_names)
    then show "\<exists>ds dr. dirtySections_loop X (m_dataBlob ?recv)
             (keyedDictionaryFromArray (sectionIdentities ?recv))
             (prevRowsHash_loop (sectionIdentities ?recv) (rowIdentities ?recv) Map.empty)
             [''s1''] [R] = ([], Inr (ds, dr))" by blast
  qed
  then show ?thesis unfolding cloneWithRows_def Let_def by blast
qed

text \<open>
  C10. Every snapshot that \<open>cloneWithRows\<close> returns, for any receiver, blob and optional
  row-identity list, has the section identities \<open>['s1']\<close>, and \<open>getSectionIDForFlatIndex\<close>
  returns \<open>s1\<close> at every flat offset from \<open>0\<close> up to its row count. On a freshly
  constructed data source \<open>cloneWithRows\<close> does return a snapshot, without calling a
  comparator, whenever the row identities are given or the blob has keys.
\<close>

theorem C10_single_section:
  "(cloneWithRows this blob rowIDs = (this', t, Inr N) \<longrightarrow> sectionIdentities N = [''s1'']) \<and>
   (cloneWithRows this blob rowIDs = (this', t, Inr N) \<and> 0 \<le> f \<and> f < int (getRowCount N) \<longrightarrow>
      getSectionIDForFlatIndex N f = Inr (JStr ''s1'')) \<and>
   (new_ListViewDataSource (Some p) = Inr d \<and> (givenRowIDs \<noteq> None \<or> objectKeys rowsBlob \<noteq> None) \<longrightarrow>
      (\<exists>d' M. cloneWithRows d rowsBlob givenRowIDs = (d', [], Inr M)))"
proof (intro conjI impI)
  assume c: "cloneWithRows this blob rowIDs = (this', t, Inr N)"
  show "sectionIdentities N = [''s1'']" by (rule cloneWithRows_Inr(1)[OF c])
next
  assume a: "cloneWithRows this blob rowIDs = (this', t, Inr N) \<and> 0 \<le> f \<and> f < int (getRowCount N)"
  then have c: "cloneWithRows this blob rowIDs = (this', t, Inr N)" by simp
  have S: "sectionIdentities N = [''s1'']" by (rule cloneWithRows_Inr(1)[OF c])
  from cloneWithRows_Inr(2)[OF c] obtain rows where R: "rowIdentities N = [rows]" by blast
  from cloneWithRows_Inr(4)[OF c] R have "getRowCount N = length rows"
    by (simp add: getRowCount_def countRows_sum)
  with a show "getSectionIDForFlatIndex N f = Inr (JStr ''s1'')"
    by (simp add: getSectionIDForFlatIndex_def S R)
next
  assume a: "new_ListViewDataSource (Some p) = Inr d \<and> (givenRowIDs \<noteq> None \<or> objectKeys rowsBlob \<noteq> None)"
  then have "sectionIdentities d = []"
    by (auto simp: new_ListViewDataSource_def split: option.splits)
  with a show "\<exists>d' M. cloneWithRows d rowsBlob givenRowIDs = (d', [], Inr M)"
    by (intro cloneWithRows_fresh_total) auto
qed

theorem C10_single_section_witness:
  "cloneWithRows example_fresh example_rows None =
     (example_fresh\<lparr>m_sectionHeaderHasChanged := Some (\<lambda>prev next. False)\<rparr>, [], Inr example_snapshot) \<and>
   sectionIdentities example_snapshot = [''s1''] \<and>
   (0::int) \<le> 2 \<and> 2 < int (getRowCount example_snapshot) \<and>
   getSectionIDForFlatIndex example_snapshot 2 = Inr (JStr ''s1'') \<and>
   new_ListViewDataSource (Some example_params) = Inr example_fresh \<and>
   objectKeys example_rows \<noteq> None \<and>
   (\<exists>d' M. cloneWithRows example_fresh example_rows None = (d', [], Inr M))"
  using C10_single_section [of example_fresh example_rows None
      "example_fresh\<lparr>m_sectionHeaderHasChanged := Some (\<lambda>prev next. False)\<rparr>" "[]"
      example_snapshot 2 example_params example_fresh None example_rows]
    example_snapshot_built example_fresh_built
  by (simp add: getRowCount_def example_snapshot_def example_rows_def)

section \<open>The first clone\<close>

lemma new_ListViewDataSource_Inr:
  assumes "new_ListViewDataSource (Some p) = Inr d"
  shows "sectionIdentities d = []" and "rowIdentities d = []" and "m_dataBlob d = JNull"
    and "m_sectionHeaderHasChanged d = p_sectionHeaderHasChanged p"
    and "m_getSectionHeaderData d =
           Some (case p_getSectionHeaderData p of
                   Some g \<Rightarrow> g | None \<Rightarrow> defaultGetSectionHeaderData)"
  using assms by (auto simp: new_ListViewDataSource_def split: option.splits)

lemma first_cloneWithRowsAndSections:
  assumes "sectionIdentities this = []"
    and "cloneWithRowsAndSections this blob sids rids = (this', t, Inr N)"
    and "\<forall>s\<in>set (sectionIdentities N). \<not> inheritedName s"
  shows "t = [] \<and>
         m_dirtySections N = replicate (length (sectionIdentities N)) True \<and>
         m_dirtyRows N = map (\<lambda>rows. replicate (length rows) True)
                           (take (length (sectionIdentities N)) (rowIdentities N))"
proof -
  let ?psh = "keyedDictionaryFromArray (sectionIdentities this)"
  let ?prh = "prevRowsHash_loop (sectionIdentities this) (rowIdentities this) Map.empty"
  have l: "dirtySections_loop N (m_dataBlob this) ?psh ?prh
             (sectionIdentities N) (rowIdentities N) = (t, Inr (m_dirtySections N, m_dirtyRows N))"
    by (rule cloneWithRowsAndSections_Inr(11)[OF assms(2)])
  from dirtySections_loop_Inr[OF l]
  have len: "length (sectionIdentities N) \<le> length (rowIdentities N)" by simp
  have "\<forall>s\<in>set (sectionIdentities N). \<not> dictRead ?psh s"
    using assms(3) by (simp add: dictRead_keyedDictionaryFromArray assms(1))
  from dirtySections_loop_no_predecessor[OF this len, of N "m_dataBlob this" ?prh] l
  show ?thesis by simp
qed

lemma first_cloneWithRows:
  assumes "sectionIdentities this = []"
    and "cloneWithRows this blob rowIDs = (this', t, Inr N)"
  shows "t = [] \<and>
         m_dirtySections N = replicate (length (sectionIdentities N)) True \<and>
         m_dirtyRows N = map (\<lambda>rows. replicate (length rows) True)
                           (take (length (sectionIdentities N)) (rowIdentities N))"
proof -
  let ?recv = "if m_sectionHeaderHasChanged this = None
               then this\<lparr>m_sectionHeaderHasChanged := Some (\<lambda>prev next. False)\<rparr> else this"
  from assms(2) have c: "cloneWithRowsAndSections ?recv (JObj [(''s1'', blob)]) (Some [''s1''])
      (case rowIDs of Some r \<Rightarrow> Some [r] | None \<Rightarrow> None) = (this', t, Inr N)"
    by (simp add: cloneWithRows_def Let_def)
  have e: "sectionIdentities ?recv = []" using assms(1) by simp
  have "\<forall>s\<in>set (sectionIdentities N). \<not> inheritedName s"
    using cloneWithRows_Inr(1)[OF assms(2)] by (simp add: ordinary_names)
  from first_cloneWithRowsAndSections[OF e c this] show ?thesis .
qed

lemma first_cloneWithRowsAndSections_total:
  assumes "sectionIdentities this = []"
    and "m_sectionHeaderHasChanged this \<noteq> None"
    and "length S \<le> length R"
    and "\<forall>s\<in>set S. \<not> inheritedName s"
  shows "\<exists>N. cloneWithRowsAndSections this blob (Some S) (Some R) = (this, [], Inr N)"
proof (rule cloneWithRowsAndSections_total[OF assms(2)])
  show "(case Some S of Some s \<Rightarrow> Some s | None \<Rightarrow> objectKeys blob) = Some S" by simp
  show "(case Some R of Some r \<Rightarrow> Some r | None \<Rightarrow> rowIdentitiesFromBlob blob S) = Some R" by simp
  fix X :: ListViewDataSource
  let ?psh = "keyedDictionaryFromArray (sectionIdentities this)"
  let ?prh = "prevRowsHash_loop (sectionIdentities this) (rowIdentities this) Map.empty"
  have "\<forall>s\<in>set S. \<not> dictRead ?psh s"
    using assms(4) by (simp add: dictRead_keyedDictionaryFromArray assms(1))
  from dirtySections_loop_no_predecessor[OF this assms(3), of X "m_dataBlob this" ?prh]
  show "\<exists>ds dr. dirtySections_loop X (m_dataBlob this) ?psh ?prh S R = ([], Inr (ds, dr))"
    by blast
qed

text \<open>
  C4. The claim: on a freshly constructed data source every section bit and every row
  bit of a clone is \<open>true\<close>, whatever the comparators. The code on a section identity that
  names an inherited member: the empty previous dictionary is a plain \<open>{}\<close>, the read
  \<open>prevSectionsHash['constructor']\<close> finds the inherited function, and the section counts as
  known. With the default header extractor the clone then throws on the \<open>null\<close> blob of
  the fresh data source; with an extractor that accepts it the header comparator is
  called and the section bit is \<open>false\<close>.
\<close>

theorem C4_inherited_section_name:
  "new_ListViewDataSource (Some example_params_sections) = Inr example_fresh_sections \<and>
   cloneWithRowsAndSections example_fresh_sections (JObj [(''constructor'', JObj [])])
      (Some [''constructor'']) (Some [[]]) =
     (example_fresh_sections, [], Inl ExtractorError) \<and>
   new_ListViewDataSource (Some example_params_header) = Inr example_fresh_header \<and>
   cloneWithRowsAndSections example_fresh_header (JObj [(''constructor'', JObj [])])
      (Some [''constructor'']) (Some [[]]) =
     (example_fresh_header,
      [SectionHeaderHasChangedCall (JStr ''constructor'') (JStr ''constructor'')],
      Inr (example_fresh_header
             \<lparr> m_dataBlob := JObj [(''constructor'', JObj [])],
               m_dirtyRows := [[]], m_dirtySections := [False],
               m_cachedRowCount := 0,
               rowIdentities := [[]], sectionIdentities := [''constructor''] \<rparr>))"
  by (simp add: example_fresh_sections_built)
     (simp add: clone_defs example_fresh_sections_def example_params_header_def
        example_fresh_header_def defaultGetSectionHeaderData_def propertyKey_def)

text \<open>
  Apart from such names the first clone is all dirty: lemmas \<open>first_cloneWithRowsAndSections\<close>
  and \<open>first_cloneWithRows\<close> above, and \<open>first_cloneWithRowsAndSections_total\<close> for the
  clone returning.
\<close>

section \<open>The receiver of a clone\<close>

lemma cloneWithRowsAndSections_receiver:
  "fst (cloneWithRowsAndSections this blob sids rids) = this"
  by (simp add: cloneWithRowsAndSections_def new_ListViewDataSource_def
      split: option.splits prod.splits)

text \<open>
  C3, as amended. \<open>cloneWithRowsAndSections\<close> leaves every field of its receiver as it
  was, whether it returns or throws. \<open>cloneWithRows\<close> leaves every field as it was except
  \<open>_sectionHeaderHasChanged\<close>: a receiver that has none is assigned the constant-false
  comparator, and keeps it.
\<close>

theorem C3_receiver_after_clone:
  "fst (cloneWithRowsAndSections this blob sids rids) = this \<and>
   fst (cloneWithRows this rowsBlob rowIDs) =
     (if m_sectionHeaderHasChanged this = None
      then this\<lparr>m_sectionHeaderHasChanged := Some (\<lambda>prev next. False)\<rparr>
      else this)"
  by (simp add: cloneWithRows_def Let_def cloneWithRowsAndSections_receiver)

text \<open>
  C3 as stated fails: after \<open>cloneWithRows\<close> on the freshly constructed example, which
  was configured without a header comparator, the receiver is not what it was; its
  \<open>_sectionHeaderHasChanged\<close> is now the constant-false function.
\<close>

theorem C3_cloneWithRows_assigns_receiver:
  "new_ListViewDataSource (Some example_params) = Inr example_fresh \<and>
   fst (cloneWithRows example_fresh example_rows None) \<noteq> example_fresh \<and>
   m_sectionHeaderHasChanged example_fresh = None \<and>
   m_sectionHeaderHasChanged (fst (cloneWithRows example_fresh example_rows None)) =
     Some (\<lambda>prev next. False)"
  by (simp add: example_fresh_built example_snapshot_built)
     (simp add: example_fresh_def)

section \<open>Configuration errors of construction and cloning\<close>






section \<open>Section headers without configuration\<close>

lemma example_snapshot2_built:
  "cloneWithRows example_snapshot example_rows2 None =
     (example_snapshot,
      [SectionHeaderHasChangedCall example_rows example_rows2,
       RowHasChangedCall (JStr ''A'') (JStr ''A''),
       RowHasChangedCall (JStr ''C'') (JStr ''C'')],
      Inr example_snapshot2)"
  by (simp add: clone_defs example_snapshot_def example_rows_def example_rows2_def
      example_snapshot2_def defaultGetRowData_def defaultGetSectionHeaderData_def propertyKey_def)

lemma sectionDirty_constant_false:
  assumes "sectionDirty this pb (keyedDictionaryFromArray prevSections) s = (t, Inr b)"
    and "m_sectionHeaderHasChanged this = Some (\<lambda>prev next. False)"
    and "\<not> inheritedName s"
  shows "b = (s \<notin> set prevSections)"
  using assms
  by (auto simp: sectionDirty_def dictRead_keyedDictionaryFromArray split: if_splits option.splits)

text \<open>
  C9, as amended. A data source constructed without a header extractor and without
  a header comparator holds the default extractor and no comparator. On a snapshot
  that \<open>cloneWithRows\<close> returns for such a receiver (with no comparator yet, or with the
  constant-false one an earlier \<open>cloneWithRows\<close> installed), \<open>getSectionHeaderData(0)\<close> is the
  row collection that was passed to \<open>cloneWithRows\<close>, and \<open>sectionHeaderShouldUpdate(0)\<close> is
  \<open>true\<close> exactly when the receiver had no section \<open>s1\<close>: \<open>true\<close> on the first clone, \<open>false\<close> on
  the later ones. At any other index both report a diagnostic and return \<open>undefined\<close>.
  The snapshot again holds the default extractor and the constant-false comparator.
\<close>

theorem C9_default_header:
  "(new_ListViewDataSource (Some p) = Inr d \<and>
    p_getSectionHeaderData p = None \<and> p_sectionHeaderHasChanged p = None \<longrightarrow>
      m_getSectionHeaderData d = Some defaultGetSectionHeaderData \<and>
      m_sectionHeaderHasChanged d = None) \<and>
   (m_getSectionHeaderData this = Some defaultGetSectionHeaderData \<and>
    (m_sectionHeaderHasChanged this = None \<or>
     m_sectionHeaderHasChanged this = Some (\<lambda>prev next. False)) \<and>
    cloneWithRows this blob rowIDs = (this', t, Inr N) \<longrightarrow>
      getSectionHeaderData N 0 = ([], Inr blob) \<and>
      sectionHeaderShouldUpdate N 0 = ([], Some (''s1'' \<notin> set (sectionIdentities this))) \<and>
      (i \<noteq> 0 \<longrightarrow> getSectionHeaderData N i = ([InvalidSection i], Inr JUndefined) \<and>
                 sectionHeaderShouldUpdate N i = ([MissingDirtyBitSection i], None)) \<and>
      m_getSectionHeaderData N = Some defaultGetSectionHeaderData \<and>
      m_sectionHeaderHasChanged N = Some (\<lambda>prev next. False))"
proof (intro conjI impI)
  assume "new_ListViewDataSource (Some p) = Inr d \<and>
    p_getSectionHeaderData p = None \<and> p_sectionHeaderHasChanged p = None"
  then show "m_getSectionHeaderData d = Some defaultGetSectionHeaderData"
    and "m_sectionHeaderHasChanged d = None"
    using new_ListViewDataSource_Inr(4,5)[of p d] by simp_all
next
  assume a: "m_getSectionHeaderData this = Some defaultGetSectionHeaderData \<and>
    (m_sectionHeaderHasChanged this = None \<or>
     m_sectionHeaderHasChanged this = Some (\<lambda>prev next. False)) \<and>
    cloneWithRows this blob rowIDs = (this', t, Inr N)"
  let ?recv = "if m_sectionHeaderHasChanged this = None
               then this\<lparr>m_sectionHeaderHasChanged := Some (\<lambda>prev next. False)\<rparr> else this"
  from a have c: "cloneWithRowsAndSections ?recv (JObj [(''s1'', blob)]) (Some [''s1''])
      (case rowIDs of Some r \<Rightarrow> Some [r] | None \<Rightarrow> None) = (this', t, Inr N)"
    by (simp add: cloneWithRows_def Let_def)
  have recv: "m_sectionHeaderHasChanged ?recv = Some (\<lambda>prev next. False)"
    "m_getSectionHeaderData ?recv = Some defaultGetSectionHeaderData"
    "sectionIdentities ?recv = sectionIdentities this"
    using a by auto
  have S: "sectionIdentities N = [''s1'']"
    using cloneWithRowsAndSections_Inr(3)[OF c] by simp
  have B: "m_dataBlob N = JObj [(''s1'', blob)]"
    by (rule cloneWithRowsAndSections_Inr(5)[OF c])
  show shc: "m_sectionHeaderHasChanged N = Some (\<lambda>prev next. False)"
    using cloneWithRowsAndSections_Inr(9)[OF c] recv(1) by simp
  show G: "m_getSectionHeaderData N = Some defaultGetSectionHeaderData"
    using cloneWithRowsAndSections_Inr(10)[OF c] recv(2) by simp
  have l: "dirtySections_loop N (m_dataBlob ?recv)
           (keyedDictionaryFromArray (sectionIdentities this))
           (prevRowsHash_loop (sectionIdentities ?recv) (rowIdentities ?recv) Map.empty)
           [''s1''] (rowIdentities N) = (t, Inr (m_dirtySections N, m_dirtyRows N))"
    using cloneWithRowsAndSections_Inr(11)[OF c] unfolding S recv(3) .
  from dirtySections_loop_Inr[OF l]
  have len: "length (m_dirtySections N) = 1"
    and sd: "sectionDirty N (m_dataBlob ?recv) (keyedDictionaryFromArray (sectionIdentities this)) ''s1'' =
       (fst (sectionDirty N (m_dataBlob ?recv) (keyedDictionaryFromArray (sectionIdentities this)) ''s1''),
        Inr (m_dirtySections N ! 0))"
    by simp_all
  from sectionDirty_constant_false[OF sd shc ordinary_names(1)]
  have bit: "m_dirtySections N ! 0 = (''s1'' \<notin> set (sectionIdentities this))" .
  show "getSectionHeaderData N 0 = ([], Inr blob)"
    by (simp add: getSectionHeaderData_def G S B arrayGet_def warning_def
        defaultGetSectionHeaderData_def propertyKey_def)
  show "sectionHeaderShouldUpdate N 0 = ([], Some (''s1'' \<notin> set (sectionIdentities this)))"
    using len bit by (simp add: sectionHeaderShouldUpdate_def arrayGet_def warning_def)
  show "getSectionHeaderData N i = ([InvalidSection i], Inr JUndefined)" if "i \<noteq> 0"
    using that by (simp add: getSectionHeaderData_def G S B arrayGet_def warning_def
        defaultGetSectionHeaderData_def propertyKey_def ordinary_names)
  show "sectionHeaderShouldUpdate N i = ([MissingDirtyBitSection i], None)" if "i \<noteq> 0"
    using that len by (simp add: sectionHeaderShouldUpdate_def arrayGet_def warning_def)
qed

theorem C9_default_header_witness:
  "new_ListViewDataSource (Some example_params) = Inr example_fresh \<and>
   p_getSectionHeaderData example_params = None \<and>
   p_sectionHeaderHasChanged example_params = None \<and>
   m_getSectionHeaderData example_fresh = Some defaultGetSectionHeaderData \<and>
   m_sectionHeaderHasChanged example_fresh = None \<and>
   m_getSectionHeaderData example_snapshot = Some defaultGetSectionHeaderData \<and>
   m_sectionHeaderHasChanged example_snapshot = Some (\<lambda>prev next. False) \<and>
   snd (snd (cloneWithRows example_snapshot example_rows2 None)) = Inr example_snapshot2 \<and>
   getSectionHeaderData example_snapshot2 0 = ([], Inr example_rows2) \<and>
   sectionHeaderShouldUpdate example_snapshot2 0 = ([], Some False) \<and>
   getSectionHeaderData example_snapshot2 1 = ([InvalidSection 1], Inr JUndefined) \<and>
   sectionHeaderShouldUpdate example_snapshot2 1 = ([MissingDirtyBitSection 1], None)"
  using C9_default_header [of example_params example_fresh example_snapshot example_rows2 None
      example_snapshot
      "[SectionHeaderHasChangedCall example_rows example_rows2,
        RowHasChangedCall (JStr ''A'') (JStr ''A''),
        RowHasChangedCall (JStr ''C'') (JStr ''C'')]"
      example_snapshot2 1]
    example_fresh_built example_snapshot2_built
  by (simp add: example_params_def example_fresh_def)
     (simp add: example_snapshot_def)

text \<open>
  C9 as stated fails: the example data source is configured without header extractor
  and without header comparator, and on the snapshot of its first \<open>cloneWithRows\<close> the
  header data of section \<open>0\<close> is the row collection, not an absence value, and the
  header bit of section \<open>0\<close> is \<open>true\<close>.
\<close>

theorem C9_header_data_and_first_bit:
  "new_ListViewDataSource (Some example_params) = Inr example_fresh \<and>
   p_getSectionHeaderData example_params = None \<and>
   p_sectionHeaderHasChanged example_params = None \<and>
   snd (snd (cloneWithRows example_fresh example_rows None)) = Inr example_snapshot \<and>
   getSectionHeaderData example_snapshot 0 = ([], Inr example_rows) \<and>
   example_rows \<noteq> JNull \<and> example_rows \<noteq> JUndefined \<and>
   sectionHeaderShouldUpdate example_snapshot 0 = ([], Some True)"
  by (simp add: example_fresh_built example_snapshot_built)
     (auto simp add: example_params_def example_snapshot_def example_rows_def
        getSectionHeaderData_def sectionHeaderShouldUpdate_def arrayGet_def warning_def
        defaultGetSectionHeaderData_def propertyKey_def)

section \<open>Flat offsets within the range\<close>

lemma flatIndex_loops_in_range:
  "length ss \<le> length rs \<Longrightarrow> 0 \<le> f \<Longrightarrow>
   f < int (sum_list (map length (take (length ss) rs))) \<Longrightarrow>
   \<exists>i j. i < length ss \<and> j < length (rs ! i) \<and>
         getSectionIDForFlatIndex_loop ss rs f = Inr (JStr (ss ! i)) \<and>
         getRowIDForFlatIndex_loop ss rs f = Inr (JStr (rs ! i ! j)) \<and>
         int (sum_list (map length (take i rs))) + int j = f"
proof (induction ss arbitrary: rs f)
  case Nil
  then show ?case by simp
next
  case (Cons s ss)
  then obtain rows rest where r: "rs = rows # rest" by (cases rs) auto
  show ?case
  proof (cases "f \<ge> int (length rows)")
    case True
    from Cons.prems r True
    have "\<exists>i j. i < length ss \<and> j < length (rest ! i) \<and>
         getSectionIDForFlatIndex_loop ss rest (f - int (length rows)) = Inr (JStr (ss ! i)) \<and>
         getRowIDForFlatIndex_loop ss rest (f - int (length rows)) = Inr (JStr (rest ! i ! j)) \<and>
         int (sum_list (map length (take i rest))) + int j = f - int (length rows)"
      by (intro Cons.IH) auto
    then obtain i j where ij: "i < length ss" "j < length (rest ! i)"
       "getSectionIDForFlatIndex_loop ss rest (f - int (length rows)) = Inr (JStr (ss ! i))"
       "getRowIDForFlatIndex_loop ss rest (f - int (length rows)) = Inr (JStr (rest ! i ! j))"
       "int (sum_list (map length (take i rest))) + int j = f - int (length rows)"
      by blast
    have "Suc i < length (s # ss) \<and> j < length (rs ! Suc i) \<and>
         getSectionIDForFlatIndex_loop (s # ss) rs f = Inr (JStr ((s # ss) ! Suc i)) \<and>
         getRowIDForFlatIndex_loop (s # ss) rs f = Inr (JStr (rs ! Suc i ! j)) \<and>
         int (sum_list (map length (take (Suc i) rs))) + int j = f"
      using ij r True by simp
    then show ?thesis by blast
  next
    case False
    have "0 < length (s # ss) \<and> nat f < length (rs ! 0) \<and>
         getSectionIDForFlatIndex_loop (s # ss) rs f = Inr (JStr ((s # ss) ! 0)) \<and>
         getRowIDForFlatIndex_loop (s # ss) rs f = Inr (JStr (rs ! 0 ! nat f)) \<and>
         int (sum_list (map length (take 0 rs))) + int (nat f) = f"
      using False Cons.prems(2) r by (simp add: arrayGet_def)
    then show ?thesis by blast
  qed
qed

text \<open>
  Shapes. A snapshot has a row list for every section, and its bitmaps have the shape
  of its identities; it has exactly one row list per section when the row identities
  were derived from the blob, and when it comes from \<open>cloneWithRows\<close>. Row lists given
  by the caller may outnumber the sections: the extra ones are counted by \<open>countRows\<close>
  and never walked.
\<close>

lemma rowIdentitiesFromBlob_length:
  "rowIdentitiesFromBlob blob ss = Some rs \<Longrightarrow> length rs = length ss"
  by (induction ss arbitrary: rs) (auto split: option.splits)

lemma derived_rowIdentities_length:
  assumes "cloneWithRowsAndSections P blob sids None = (P', t, Inr N)"
  shows "length (rowIdentities N) = length (sectionIdentities N)"
  using cloneWithRowsAndSections_Inr(4)[OF assms] by (simp add: rowIdentitiesFromBlob_length)

lemma cloneWithRows_length:
  assumes "cloneWithRows P blob rowIDs = (P', t, Inr N)"
  shows "length (rowIdentities N) = length (sectionIdentities N)"
  using cloneWithRows_Inr(1,2)[OF assms] by auto

lemma cloneWithRowsAndSections_length:
  assumes "cloneWithRowsAndSections P blob sids rids = (P', t, Inr N)"
  shows "length (sectionIdentities N) \<le> length (rowIdentities N)"
    and "length (m_dirtySections N) = length (sectionIdentities N)"
    and "length (m_dirtyRows N) = length (sectionIdentities N)"
    and "i < length (sectionIdentities N) \<Longrightarrow>
         length (m_dirtyRows N ! i) = length (rowIdentities N ! i)"
proof -
  note l = dirtySections_loop_Inr[OF cloneWithRowsAndSections_Inr(11)[OF assms]]
  from l show "length (sectionIdentities N) \<le> length (rowIdentities N)"
    and "length (m_dirtySections N) = length (sectionIdentities N)"
    and "length (m_dirtyRows N) = length (sectionIdentities N)"
    by simp_all
  assume "i < length (sectionIdentities N)"
  with l have "dirtyRows_loop N (m_dataBlob P) (keyedDictionaryFromArray (sectionIdentities P))
      (prevRowsHash_loop (sectionIdentities P) (rowIdentities P) Map.empty)
      (sectionIdentities N ! i) (rowIdentities N ! i) =
     (fst (dirtyRows_loop N (m_dataBlob P) (keyedDictionaryFromArray (sectionIdentities P))
      (prevRowsHash_loop (sectionIdentities P) (rowIdentities P) Map.empty)
      (sectionIdentities N ! i) (rowIdentities N ! i)), Inr (m_dirtyRows N ! i))"
    by blast
  from dirtyRows_loop_Inr[OF this]
  show "length (m_dirtyRows N ! i) = length (rowIdentities N ! i)" by simp
qed

text \<open>
  A flat offset outside the range, on any snapshot: from \<open>getRowCount()\<close> on, both
  lookups return \<open>null\<close>; below zero, the section lookup returns the first section
  identity and the row lookup \<open>undefined\<close>.
\<close>

lemma flatIndex_loops_beyond_range:
  "length ss \<le> length rs \<Longrightarrow>
   int (sum_list (map length (take (length ss) rs))) \<le> f \<Longrightarrow>
   getSectionIDForFlatIndex_loop ss rs f = Inr JNull \<and>
   getRowIDForFlatIndex_loop ss rs f = Inr JNull"
proof (induction ss arbitrary: rs f)
  case Nil
  show ?case by simp
next
  case (Cons s ss)
  then obtain rows rest where r: "rs = rows # rest" by (cases rs) auto
  with Cons.prems have "getSectionIDForFlatIndex_loop ss rest (f - int (length rows)) = Inr JNull \<and>
     getRowIDForFlatIndex_loop ss rest (f - int (length rows)) = Inr JNull"
    by (intro Cons.IH) auto
  with Cons.prems r show ?case by simp
qed

lemma flatIndex_beyond_range:
  assumes "cloneWithRowsAndSections P blob sids rids = (P', t, Inr N)"
    and "int (getRowCount N) \<le> f"
  shows "getSectionIDForFlatIndex N f = Inr JNull" and "getRowIDForFlatIndex N f = Inr JNull"
proof -
  have len: "length (sectionIdentities N) \<le> length (rowIdentities N)"
    by (rule cloneWithRowsAndSections_length(1)[OF assms(1)])
  have "sum_list (map length (take (length (sectionIdentities N)) (rowIdentities N)))
          \<le> sum_list (map length (rowIdentities N))"
    by (metis append_take_drop_id le_add1 map_append sum_list.append)
  moreover have "getRowCount N = sum_list (map length (rowIdentities N))"
    using cloneWithRowsAndSections_Inr(6)[OF assms(1)]
    by (simp add: getRowCount_def countRows_sum)
  ultimately have "int (sum_list (map length (take (length (sectionIdentities N)) (rowIdentities N)))) \<le> f"
    using assms(2) by simp
  from flatIndex_loops_beyond_range[OF len this]
  show "getSectionIDForFlatIndex N f = Inr JNull" and "getRowIDForFlatIndex N f = Inr JNull"
    by (simp_all add: getSectionIDForFlatIndex_def getRowIDForFlatIndex_def)
qed

lemma flatIndex_negative:
  assumes "cloneWithRowsAndSections P blob sids rids = (P', t, Inr N)"
    and "sectionIdentities N = s # ss" and "f < 0"
  shows "getSectionIDForFlatIndex N f = Inr (JStr s)" and "getRowIDForFlatIndex N f = Inr JUndefined"
proof -
  from cloneWithRowsAndSections_length(1)[OF assms(1)] assms(2)
  obtain rows rest where "rowIdentities N = rows # rest" by (cases "rowIdentities N") auto
  with assms(2,3)
  show "getSectionIDForFlatIndex N f = Inr (JStr s)" and "getRowIDForFlatIndex N f = Inr JUndefined"
    by (simp_all add: getSectionIDForFlatIndex_def getRowIDForFlatIndex_def arrayGet_def)
qed

lemma getSectionLengths_loop_total:
  "length ss \<le> length rs \<Longrightarrow>
   getSectionLengths_loop ss rs = Inr (map length (take (length ss) rs))"
proof (induction ss arbitrary: rs)
  case Nil
  show ?case by simp
next
  case (Cons s ss)
  then obtain rows rest where r: "rs = rows # rest" by (cases rs) auto
  with Cons.prems have "getSectionLengths_loop ss rest = Inr (map length (take (length ss) rest))"
    by (intro Cons.IH) simp
  with r show ?case by simp
qed

text \<open>
  C2, as amended. On every snapshot, that is on what a clone returned,
  \<open>getSectionLengths()\<close> returns the row count of each section, and every flat offset \<open>f\<close>
  from \<open>0\<close> up to the sum of these counts is resolved by \<open>getSectionIDForFlatIndex\<close> and
  \<open>getRowIDForFlatIndex\<close> to the identities at one section index \<open>i\<close> and one row index \<open>j\<close> of
  that section, such that the row counts of the sections before \<open>i\<close>, plus \<open>j\<close>, give \<open>f\<close>
  back. The sum is \<open>getRowCount()\<close> when the snapshot has one row list per section.
\<close>

theorem C2_flat_index_round_trip:
  assumes clone: "cloneWithRowsAndSections P blob sids rids = (P', t, Inr N)"
  shows "\<exists>ls. getSectionLengths N = Inr ls \<and>
           length ls = length (sectionIdentities N) \<and>
           (length (rowIdentities N) = length (sectionIdentities N) \<longrightarrow>
              getRowCount N = sum_list ls) \<and>
           (0 \<le> f \<and> f < int (sum_list ls) \<longrightarrow>
              (\<exists>i j. i < length (sectionIdentities N) \<and> j < length (rowIdentities N ! i) \<and>
                 getSectionIDForFlatIndex N f = Inr (JStr (sectionIdentities N ! i)) \<and>
                 getRowIDForFlatIndex N f = Inr (JStr (rowIdentities N ! i ! j)) \<and>
                 int (sum_list (take i ls)) + int j = f))"
proof -
  let ?S = "sectionIdentities N" and ?R = "rowIdentities N"
  let ?ls = "map length (take (length ?S) ?R)"
  have shape: "length ?S \<le> length ?R"
    by (rule cloneWithRowsAndSections_length(1)[OF clone])
  have lengths: "getSectionLengths N = Inr ?ls"
    unfolding getSectionLengths_def by (rule getSectionLengths_loop_total[OF shape])
  have len: "length ?ls = length ?S"
    using shape by simp
  have count: "getRowCount N = sum_list ?ls" if "length ?R = length ?S"
    using cloneWithRowsAndSections_Inr(6)[OF clone] that
    by (simp add: getRowCount_def countRows_sum)
  have trip: "\<exists>i j. i < length ?S \<and> j < length (?R ! i) \<and>
                 getSectionIDForFlatIndex N f = Inr (JStr (?S ! i)) \<and>
                 getRowIDForFlatIndex N f = Inr (JStr (?R ! i ! j)) \<and>
                 int (sum_list (take i ?ls)) + int j = f"
    if f: "0 \<le> f \<and> f < int (sum_list ?ls)"
  proof -
    from f have lo: "0 \<le> f" and hi: "f < int (sum_list (map length (take (length ?S) ?R)))"
      by simp_all
    from flatIndex_loops_in_range[OF shape lo hi]
    obtain i j where ij: "i < length ?S" "j < length (?R ! i)"
      "getSectionIDForFlatIndex_loop ?S ?R f = Inr (JStr (?S ! i))"
      "getRowIDForFlatIndex_loop ?S ?R f = Inr (JStr (?R ! i ! j))"
      "int (sum_list (map length (take i ?R))) + int j = f"
      by blast
    from ij(1) have "take i ?ls = map length (take i ?R)"
      by (simp add: take_map min_def)
    with ij have "i < length ?S \<and> j < length (?R ! i) \<and>
                 getSectionIDForFlatIndex N f = Inr (JStr (?S ! i)) \<and>
                 getRowIDForFlatIndex N f = Inr (JStr (?R ! i ! j)) \<and>
                 int (sum_list (take i ?ls)) + int j = f"
      by (simp add: getSectionIDForFlatIndex_def getRowIDForFlatIndex_def)
    then show ?thesis by blast
  qed
  from lengths len count trip show ?thesis by blast
qed

theorem C2_flat_index_round_trip_witness:
  "cloneWithRowsAndSections example_fresh_never example_sections_blob
      (Some [''a'', ''b'']) (Some [[''x'', ''y''], [''z'']]) =
     (example_fresh_never, [], Inr example_sections_snapshot) \<and>
   getSectionLengths example_sections_snapshot = Inr [2, 1] \<and>
   length (rowIdentities example_sections_snapshot) =
     length (sectionIdentities example_sections_snapshot) \<and>
   getRowCount example_sections_snapshot = 3 \<and>
   (0::int) \<le> 2 \<and> (2::int) < int (sum_list [2, 1]) \<and>
   getSectionIDForFlatIndex example_sections_snapshot 2 = Inr (JStr ''b'') \<and>
   getRowIDForFlatIndex example_sections_snapshot 2 = Inr (JStr ''z'') \<and>
   (\<exists>i j. i < length (sectionIdentities example_sections_snapshot) \<and>
          j < length (rowIdentities example_sections_snapshot ! i) \<and>
          getSectionIDForFlatIndex example_sections_snapshot 2 =
            Inr (JStr (sectionIdentities example_sections_snapshot ! i)) \<and>
          getRowIDForFlatIndex example_sections_snapshot 2 =
            Inr (JStr (rowIdentities example_sections_snapshot ! i ! j)) \<and>
          int (sum_list (take i [2, 1])) + int j = 2)"
proof -
  have lengths: "getSectionLengths example_sections_snapshot = Inr [2, 1]"
    by (simp add: getSectionLengths_def example_sections_snapshot_def)
  have len: "length (rowIdentities example_sections_snapshot) =
     length (sectionIdentities example_sections_snapshot)"
    by (simp add: example_sections_snapshot_def)
  have cnt: "getRowCount example_sections_snapshot = 3"
    by (simp add: getRowCount_def example_sections_snapshot_def)
  have range: "(0::int) \<le> 2" "(2::int) < int (sum_list [2, 1])"
    by simp_all
  have ids: "getSectionIDForFlatIndex example_sections_snapshot 2 = Inr (JStr ''b'')"
    "getRowIDForFlatIndex example_sections_snapshot 2 = Inr (JStr ''z'')"
    by (simp_all add: getSectionIDForFlatIndex_def getRowIDForFlatIndex_def
        example_sections_snapshot_def arrayGet_def)
  from C2_flat_index_round_trip[OF example_sections_snapshot_built, of 2] lengths range
  have "\<exists>i j. i < length (sectionIdentities example_sections_snapshot) \<and>
          j < length (rowIdentities example_sections_snapshot ! i) \<and>
          getSectionIDForFlatIndex example_sections_snapshot 2 =
            Inr (JStr (sectionIdentities example_sections_snapshot ! i)) \<and>
          getRowIDForFlatIndex example_sections_snapshot 2 =
            Inr (JStr (rowIdentities example_sections_snapshot ! i ! j)) \<and>
          int (sum_list (take i [2, 1])) + int j = 2"
    by auto
  with example_sections_snapshot_built lengths len cnt range ids
  show ?thesis by blast
qed

text \<open>
  C2 as stated fails on a snapshot with more row lists than sections: a clone takes
  the caller's lists as they are, \<open>countRows\<close> counts the rows of all of them, and the
  lookups walk the sections only. The snapshot of the example has the section \<open>a\<close> with
  one row and a second list of two rows; its row count is \<open>3\<close>, and the offsets \<open>1\<close> and \<open>2\<close>
  resolve to \<open>null\<close>.
\<close>

theorem C2_more_row_lists_than_sections:
  "snd (snd (cloneWithRowsAndSections example_fresh_never example_extra_rows_blob
               (Some [''a'']) (Some [[''x''], [''z'', ''w'']]))) = Inr example_extra_rows_snapshot \<and>
   getRowCount example_extra_rows_snapshot = 3 \<and>
   getSectionLengths example_extra_rows_snapshot = Inr [1] \<and>
   getSectionIDForFlatIndex example_extra_rows_snapshot 1 = Inr JNull \<and>
   getRowIDForFlatIndex example_extra_rows_snapshot 1 = Inr JNull \<and>
   getSectionIDForFlatIndex example_extra_rows_snapshot 2 = Inr JNull \<and>
   getRowIDForFlatIndex example_extra_rows_snapshot 2 = Inr JNull"
  by (simp add: example_extra_rows_snapshot_built)
     (simp add: getRowCount_def getSectionLengths_def getSectionIDForFlatIndex_def
        getRowIDForFlatIndex_def example_extra_rows_snapshot_def)

section \<open>The dirty bit of a row\<close>




lemma prevRowsHash_known_section:
  assumes "length (sectionIdentities P) \<le> length (rowIdentities P)"
    and "length (rowIdentities P) = length (sectionIdentities P) \<or> s \<noteq> ''undefined''"
    and "s \<in> set (sectionIdentities P)"
  shows "prevRowsHash_loop (sectionIdentities P) (rowIdentities P) Map.empty s =
           Some (keyedDictionaryFromArray (rowIdentitiesOfSection P s))"
proof -
  have "map fst (zip (sectionIdentities P) (rowIdentities P)) = sectionIdentities P"
    using assms(1) by (simp add: map_fst_zip_take)
  then have "s \<in> fst ` set (rev (zip (sectionIdentities P) (rowIdentities P)))"
    using assms(3) by (simp flip: set_map)
  then obtain rows where
    "map_of (rev (zip (sectionIdentities P) (rowIdentities P))) s = Some rows"
    by (metis map_of_eq_None_iff not_Some_eq)
  moreover have "length (rowIdentities P) \<le> length (sectionIdentities P) \<or> s \<noteq> ''undefined''"
    using assms(2) by auto
  ultimately show ?thesis
    by (simp add: prevRowsHash_loop_apply rowIdentitiesOfSection_def)
qed






section \<open>Cloning a snapshot onto itself\<close>

text \<open>
  C5 as stated fails on a snapshot that lists a section twice. The snapshot of the
  example lists \<open>a\<close> with the row \<open>x\<close> and again with the row \<open>y\<close>; both comparators are
  the constant-false function. Cloned with its own blob and its own identity lists,
  the row \<open>x\<close> of the first \<open>a\<close> is looked up in the rows of the last \<open>a\<close>, is not found,
  and is dirty.
\<close>

theorem C5_duplicate_section:
  "new_ListViewDataSource (Some example_params_never) = Inr example_fresh_never \<and>
   snd (snd (cloneWithRowsAndSections example_fresh_never example_sections_blob
      (Some [''a'', ''a'']) (Some [[''x''], [''y'']]))) = Inr example_duplicate_snapshot \<and>
   m_rowHasChanged example_duplicate_snapshot = (\<lambda>prev next. False) \<and>
   m_sectionHeaderHasChanged example_duplicate_snapshot = Some (\<lambda>prev next. False) \<and>
   cloneWithRowsAndSections example_duplicate_snapshot (m_dataBlob example_duplicate_snapshot)
      (Some (sectionIdentities example_duplicate_snapshot))
      (Some (rowIdentities example_duplicate_snapshot)) =
     (example_duplicate_snapshot,
      [SectionHeaderHasChangedCall (JObj [(''x'', JNum 1), (''y'', JNum 2)])
         (JObj [(''x'', JNum 1), (''y'', JNum 2)]),
       SectionHeaderHasChangedCall (JObj [(''x'', JNum 1), (''y'', JNum 2)])
         (JObj [(''x'', JNum 1), (''y'', JNum 2)]),
       RowHasChangedCall (JNum 2) (JNum 2)],
      Inr (example_duplicate_snapshot
             \<lparr>m_dirtyRows := [[True], [False]], m_dirtySections := [False, False]\<rparr>))"
  by (simp add: example_fresh_never_built example_duplicate_snapshot_built)
     (simp add: clone_defs example_fresh_never_def example_duplicate_snapshot_def
        example_sections_blob_def defaultGetRowData_def defaultGetSectionHeaderData_def
        propertyKey_def)

lemma dirtyRows_loop_unchanged:
  assumes "dictRead psh s" and "prh s = Some known"
    and "m_rowHasChanged X = (\<lambda>prev next. False)"
    and "\<forall>r\<in>set rows. dictRead known r \<and>
           m_getRowData X pb (Some s) (Some r) \<noteq> None \<and>
           m_getRowData X (m_dataBlob X) (Some s) (Some r) \<noteq> None"
  shows "\<exists>t. dirtyRows_loop X pb psh prh s rows = (t, Inr (replicate (length rows) False))"
  using assms(4)
proof (induction rows)
  case Nil
  show ?case by simp
next
  case (Cons r rows)
  then obtain t where t: "dirtyRows_loop X pb psh prh s rows = (t, Inr (replicate (length rows) False))"
    by auto
  from Cons.prems obtain a b where
    "m_getRowData X pb (Some s) (Some r) = Some a"
    "m_getRowData X (m_dataBlob X) (Some s) (Some r) = Some b" "dictRead known r"
    by auto
  then have "rowDirty X pb psh prh s r = ([RowHasChangedCall a b], Inr False)"
    using assms(1,2,3) by (simp add: rowDirty_def rowChanged_def)
  with t show ?case by simp
qed

lemma sectionDirty_unchanged:
  assumes "dictRead psh s"
    and "m_sectionHeaderHasChanged X = Some (\<lambda>prev next. False)"
    and "m_getSectionHeaderData X = Some g"
    and "g pb (Some s) \<noteq> None" and "g (m_dataBlob X) (Some s) \<noteq> None"
  shows "\<exists>t. sectionDirty X pb psh s = (t, Inr False)"
  using assms by (auto simp: sectionDirty_def)

lemma dirtySections_loop_unchanged:
  assumes "m_rowHasChanged X = (\<lambda>prev next. False)"
    and "m_sectionHeaderHasChanged X = Some (\<lambda>prev next. False)"
    and "m_getSectionHeaderData X = Some g"
    and "length ss = length rs"
    and "\<forall>(s, rows)\<in>set (zip ss rs).
           dictRead psh s \<and> g pb (Some s) \<noteq> None \<and> g (m_dataBlob X) (Some s) \<noteq> None \<and>
           (\<exists>known. prh s = Some known \<and>
              (\<forall>r\<in>set rows. dictRead known r \<and>
                 m_getRowData X pb (Some s) (Some r) \<noteq> None \<and>
                 m_getRowData X (m_dataBlob X) (Some s) (Some r) \<noteq> None))"
  shows "\<exists>t. dirtySections_loop X pb psh prh ss rs =
           (t, Inr (replicate (length ss) False, map (\<lambda>rows. replicate (length rows) False) rs))"
  using assms(4,5)
proof (induction ss arbitrary: rs)
  case Nil
  then show ?case by simp
next
  case (Cons s ss)
  then obtain rows rest where r: "rs = rows # rest" by (cases rs) auto
  from Cons.prems r have "\<exists>t. dirtySections_loop X pb psh prh ss rest =
           (t, Inr (replicate (length ss) False, map (\<lambda>rows. replicate (length rows) False) rest))"
    by (intro Cons.IH) auto
  then obtain t3 where t3: "dirtySections_loop X pb psh prh ss rest =
           (t3, Inr (replicate (length ss) False, map (\<lambda>rows. replicate (length rows) False) rest))"
    by blast
  from Cons.prems(2) r have here:
    "dictRead psh s" "g pb (Some s) \<noteq> None" "g (m_dataBlob X) (Some s) \<noteq> None"
    "\<exists>known. prh s = Some known \<and>
              (\<forall>r\<in>set rows. dictRead known r \<and>
                 m_getRowData X pb (Some s) (Some r) \<noteq> None \<and>
                 m_getRowData X (m_dataBlob X) (Some s) (Some r) \<noteq> None)"
    by auto
  have "\<exists>t. sectionDirty X pb psh s = (t, Inr False)"
    using here(1) assms(2,3) here(2,3) by (rule sectionDirty_unchanged)
  then obtain t1 where t1: "sectionDirty X pb psh s = (t1, Inr False)" by blast
  from here(4) obtain known where k: "prh s = Some known"
    "\<forall>r\<in>set rows. dictRead known r \<and>
                 m_getRowData X pb (Some s) (Some r) \<noteq> None \<and>
                 m_getRowData X (m_dataBlob X) (Some s) (Some r) \<noteq> None"
    by blast
  have "\<exists>t. dirtyRows_loop X pb psh prh s rows = (t, Inr (replicate (length rows) False))"
    using here(1) k(1) assms(1) k(2) by (rule dirtyRows_loop_unchanged)
  then obtain t2 where t2: "dirtyRows_loop X pb psh prh s rows = (t2, Inr (replicate (length rows) False))"
    by blast
  show ?case by (simp add: r t1 t2 t3)
qed

lemma rowIdentitiesOfSection_distinct:
  assumes "length (rowIdentities P) = length (sectionIdentities P)"
    and "distinct (sectionIdentities P)"
    and "(s, rows) \<in> set (zip (sectionIdentities P) (rowIdentities P))"
  shows "rowIdentitiesOfSection P s = rows"
proof -
  have "distinct (map fst (rev (zip (sectionIdentities P) (rowIdentities P))))"
    using assms(1,2) by (simp add: rev_map[symmetric] map_fst_zip)
  moreover have "(s, rows) \<in> set (rev (zip (sectionIdentities P) (rowIdentities P)))"
    using assms(3) by simp
  ultimately have "map_of (rev (zip (sectionIdentities P) (rowIdentities P))) s = Some rows"
    by (rule map_of_is_SomeI)
  then show ?thesis by (simp add: rowIdentitiesOfSection_def)
qed


text \<open>
  C5, as amended. Let \<open>P\<close> be a snapshot with one row list per section and pairwise
  distinct section identities, whose two comparators are the constant-false function
  and whose extractors return on its own blob for each of its sections and rows. Then
  cloning \<open>P\<close> with its own blob and its own section and row identity lists returns a
  snapshot, and every section bit and every row bit of that snapshot is \<open>false\<close>.
\<close>

theorem C5_clone_of_itself:
  assumes len: "length (rowIdentities P) = length (sectionIdentities P)"
    and dist: "distinct (sectionIdentities P)"
    and rhc: "m_rowHasChanged P = (\<lambda>prev next. False)"
    and shc: "m_sectionHeaderHasChanged P = Some (\<lambda>prev next. False)"
    and hdr: "\<forall>s\<in>set (sectionIdentities P).
                (case m_getSectionHeaderData P of
                   Some g \<Rightarrow> g | None \<Rightarrow> defaultGetSectionHeaderData)
                  (m_dataBlob P) (Some s) \<noteq> None"
    and row: "\<forall>(s, rows)\<in>set (zip (sectionIdentities P) (rowIdentities P)).
                \<forall>r\<in>set rows. m_getRowData P (m_dataBlob P) (Some s) (Some r) \<noteq> None"
  shows "\<exists>t N. cloneWithRowsAndSections P (m_dataBlob P)
                  (Some (sectionIdentities P)) (Some (rowIdentities P)) = (P, t, Inr N) \<and>
               m_dirtySections N = replicate (length (sectionIdentities P)) False \<and>
               m_dirtyRows N = map (\<lambda>rows. replicate (length rows) False) (rowIdentities P)"
proof -
  let ?S = "sectionIdentities P" and ?R = "rowIdentities P" and ?pb = "m_dataBlob P"
  let ?psh = "keyedDictionaryFromArray ?S"
  let ?prh = "prevRowsHash_loop ?S ?R Map.empty"
  define g where "g = (case m_getSectionHeaderData P of
                         Some g \<Rightarrow> g | None \<Rightarrow> defaultGetSectionHeaderData)"
  define X0 where "X0 =
     \<lparr> m_rowHasChanged = m_rowHasChanged P, m_getRowData = m_getRowData P,
       m_sectionHeaderHasChanged = m_sectionHeaderHasChanged P,
       m_getSectionHeaderData = Some g,
       m_dataBlob = ?pb, m_dirtyRows = [], m_dirtySections = [], m_cachedRowCount = 0,
       rowIdentities = [], sectionIdentities = [] \<rparr>"
  have cond: "\<forall>(s, rows)\<in>set (zip ?S ?R).
           dictRead ?psh s \<and> g ?pb (Some s) \<noteq> None \<and> g (m_dataBlob X0) (Some s) \<noteq> None \<and>
           (\<exists>known. ?prh s = Some known \<and>
              (\<forall>r\<in>set rows. dictRead known r \<and>
                 m_getRowData X0 ?pb (Some s) (Some r) \<noteq> None \<and>
                 m_getRowData X0 (m_dataBlob X0) (Some s) (Some r) \<noteq> None))"
  proof (intro ballI, clarify)
    fix s rows
    assume in_zip: "(s, rows) \<in> set (zip ?S ?R)"
    then have s: "s \<in> set ?S" by (rule set_zip_leftD)
    have known: "?prh s = Some (keyedDictionaryFromArray rows)"
      using prevRowsHash_known_section[of P s] len s
        rowIdentitiesOfSection_distinct[OF len dist in_zip] by simp
    have rows: "\<forall>r\<in>set rows. dictRead (keyedDictionaryFromArray rows) r \<and>
                 m_getRowData X0 ?pb (Some s) (Some r) \<noteq> None \<and>
                 m_getRowData X0 (m_dataBlob X0) (Some s) (Some r) \<noteq> None"
      using row in_zip by (auto simp: dictRead_keyedDictionaryFromArray X0_def)
    show "dictRead ?psh s \<and> g ?pb (Some s) \<noteq> None \<and> g (m_dataBlob X0) (Some s) \<noteq> None \<and>
           (\<exists>known. ?prh s = Some known \<and>
              (\<forall>r\<in>set rows. dictRead known r \<and>
                 m_getRowData X0 ?pb (Some s) (Some r) \<noteq> None \<and>
                 m_getRowData X0 (m_dataBlob X0) (Some s) (Some r) \<noteq> None))"
      using s hdr known rows
      by (simp add: dictRead_keyedDictionaryFromArray g_def X0_def)
  qed
  have "\<exists>t. dirtySections_loop X0 ?pb ?psh ?prh ?S ?R =
           (t, Inr (replicate (length ?S) False, map (\<lambda>rows. replicate (length rows) False) ?R))"
  proof (rule dirtySections_loop_unchanged[where g = g])
    show "m_rowHasChanged X0 = (\<lambda>prev next. False)" by (simp add: X0_def rhc)
    show "m_sectionHeaderHasChanged X0 = Some (\<lambda>prev next. False)" by (simp add: X0_def shc)
    show "m_getSectionHeaderData X0 = Some g" by (simp add: X0_def)
    show "length ?S = length ?R" using len by simp
    show "\<forall>(s, rows)\<in>set (zip ?S ?R).
           dictRead ?psh s \<and> g ?pb (Some s) \<noteq> None \<and> g (m_dataBlob X0) (Some s) \<noteq> None \<and>
           (\<exists>known. ?prh s = Some known \<and>
              (\<forall>r\<in>set rows. dictRead known r \<and>
                 m_getRowData X0 ?pb (Some s) (Some r) \<noteq> None \<and>
                 m_getRowData X0 (m_dataBlob X0) (Some s) (Some r) \<noteq> None))"
      by (rule cond)
  qed
  then obtain t where L0: "dirtySections_loop X0 ?pb ?psh ?prh ?S ?R =
           (t, Inr (replicate (length ?S) False, map (\<lambda>rows. replicate (length rows) False) ?R))"
    by blast
  have same: "dirtySections_loop X ?pb ?psh ?prh ?S ?R = dirtySections_loop X0 ?pb ?psh ?prh ?S ?R"
    if "m_rowHasChanged X = m_rowHasChanged P" "m_getRowData X = m_getRowData P"
       "m_sectionHeaderHasChanged X = m_sectionHeaderHasChanged P"
       "m_getSectionHeaderData X = Some g" "m_dataBlob X = ?pb" for X
    by (rule dirtySections_loop_cong) (simp_all add: that X0_def)
  have "\<exists>N. cloneWithRowsAndSections P ?pb (Some ?S) (Some ?R) = (P, t, Inr N)"
  proof (rule cloneWithRowsAndSections_total)
    show "m_sectionHeaderHasChanged P \<noteq> None" using shc by simp
    show "(case Some ?S of Some s \<Rightarrow> Some s | None \<Rightarrow> objectKeys ?pb) = Some ?S" by simp
    show "(case Some ?R of Some r \<Rightarrow> Some r | None \<Rightarrow> rowIdentitiesFromBlob ?pb ?S) = Some ?R"
      by simp
    fix X :: ListViewDataSource
    assume "m_rowHasChanged X = m_rowHasChanged P" "m_getRowData X = m_getRowData P"
       "m_sectionHeaderHasChanged X = m_sectionHeaderHasChanged P"
       "m_getSectionHeaderData X =
          Some (case m_getSectionHeaderData P of
                  Some g \<Rightarrow> g | None \<Rightarrow> defaultGetSectionHeaderData)"
       "m_dataBlob X = ?pb"
    then have "dirtySections_loop X ?pb ?psh ?prh ?S ?R = dirtySections_loop X0 ?pb ?psh ?prh ?S ?R"
      by (intro same) (simp_all add: g_def)
    with L0 show "\<exists>ds dr. dirtySections_loop X ?pb ?psh ?prh ?S ?R = (t, Inr (ds, dr))"
      by simp
  qed
  then obtain N where c: "cloneWithRowsAndSections P ?pb (Some ?S) (Some ?R) = (P, t, Inr N)"
    by blast
  from cloneWithRowsAndSections_Inr(3,4)[OF c]
  have SN: "sectionIdentities N = ?S" and RN: "rowIdentities N = ?R" by simp_all
  have "dirtySections_loop N ?pb ?psh ?prh ?S ?R = dirtySections_loop X0 ?pb ?psh ?prh ?S ?R"
    using cloneWithRowsAndSections_Inr(5,7,8,9,10)[OF c] by (intro same) (simp_all add: g_def)
  with cloneWithRowsAndSections_Inr(11)[OF c] L0
  have "m_dirtySections N = replicate (length ?S) False \<and>
        m_dirtyRows N = map (\<lambda>rows. replicate (length rows) False) ?R"
    by (simp add: SN RN)
  with c show ?thesis by blast
qed

theorem C5_clone_of_itself_witness:
  "snd (snd (cloneWithRowsAndSections example_fresh_never example_sections_blob
      (Some [''a'', ''b'']) (Some [[''x'', ''y''], [''z'']]))) = Inr example_sections_snapshot \<and>
   length (rowIdentities example_sections_snapshot) =
     length (sectionIdentities example_sections_snapshot) \<and>
   distinct (sectionIdentities example_sections_snapshot) \<and>
   m_rowHasChanged example_sections_snapshot = (\<lambda>prev next. False) \<and>
   m_sectionHeaderHasChanged example_sections_snapshot = Some (\<lambda>prev next. False) \<and>
   (\<exists>t N. cloneWithRowsAndSections example_sections_snapshot example_sections_blob
              (Some [''a'', ''b'']) (Some [[''x'', ''y''], [''z'']]) =
              (example_sections_snapshot, t, Inr N) \<and>
          m_dirtySections N = [False, False] \<and>
          m_dirtyRows N = [[False, False], [False]])"
proof -
  have len: "length (rowIdentities example_sections_snapshot) =
     length (sectionIdentities example_sections_snapshot)"
    by (simp add: example_sections_snapshot_def)
  have dist: "distinct (sectionIdentities example_sections_snapshot)"
    by (simp add: example_sections_snapshot_def)
  have rhc: "m_rowHasChanged example_sections_snapshot = (\<lambda>prev next. False)"
    by (simp add: example_sections_snapshot_def example_fresh_never_def)
  have shc: "m_sectionHeaderHasChanged example_sections_snapshot = Some (\<lambda>prev next. False)"
    by (simp add: example_sections_snapshot_def example_fresh_never_def)
  have hdr: "\<forall>s\<in>set (sectionIdentities example_sections_snapshot).
                (case m_getSectionHeaderData example_sections_snapshot of
                   Some g \<Rightarrow> g | None \<Rightarrow> defaultGetSectionHeaderData)
                  (m_dataBlob example_sections_snapshot) (Some s) \<noteq> None"
    by (simp add: example_sections_snapshot_def example_fresh_never_def
        example_sections_blob_def defaultGetSectionHeaderData_def propertyKey_def)
  have row: "\<forall>(s, rows)\<in>set (zip (sectionIdentities example_sections_snapshot)
                                     (rowIdentities example_sections_snapshot)).
                \<forall>r\<in>set rows. m_getRowData example_sections_snapshot
                  (m_dataBlob example_sections_snapshot) (Some s) (Some r) \<noteq> None"
    by (simp add: example_sections_snapshot_def example_fresh_never_def
        example_sections_blob_def defaultGetRowData_def propertyKey_def)
  from C5_clone_of_itself[OF len dist rhc shc hdr row]
  have "\<exists>t N. cloneWithRowsAndSections example_sections_snapshot example_sections_blob
              (Some [''a'', ''b'']) (Some [[''x'', ''y''], [''z'']]) =
              (example_sections_snapshot, t, Inr N) \<and>
          m_dirtySections N = [False, False] \<and>
          m_dirtyRows N = [[False, False], [False]]"
    by (simp add: example_sections_snapshot_def numeral_2_eq_2)
  with example_sections_snapshot_built len dist rhc shc show ?thesis by simp
qed

text \<open>
  The extractors are called on the blob of both sides. A first clone calls none, so it
  accepts identities that the blob does not hold: \<open>{}\<close> with the section \<open>a\<close> and the row \<open>x\<close>.
  Cloning that snapshot onto itself calls the default row extractor on a missing
  section, and its \<open>TypeError\<close> leaves the clone.
\<close>

lemma example_unaddressed_built:
  "cloneWithRowsAndSections example_fresh_never (JObj []) (Some [''a'']) (Some [[''x'']]) =
     (example_fresh_never, [],
      Inr (example_fresh_never
             \<lparr> m_dataBlob := JObj [], m_dirtyRows := [[True]], m_dirtySections := [True],
               m_cachedRowCount := 1, rowIdentities := [[''x'']], sectionIdentities := [''a''] \<rparr>))"
  by (simp add: clone_defs example_fresh_never_def)

lemma clone_of_itself_extractor_throws:
  "cloneWithRowsAndSections
     (example_fresh_never
        \<lparr> m_dataBlob := JObj [], m_dirtyRows := [[True]], m_dirtySections := [True],
          m_cachedRowCount := 1, rowIdentities := [[''x'']], sectionIdentities := [''a''] \<rparr>)
     (JObj []) (Some [''a'']) (Some [[''x'']]) =
     (example_fresh_never
        \<lparr> m_dataBlob := JObj [], m_dirtyRows := [[True]], m_dirtySections := [True],
          m_cachedRowCount := 1, rowIdentities := [[''x'']], sectionIdentities := [''a''] \<rparr>,
      [SectionHeaderHasChangedCall JUndefined JUndefined], Inl ExtractorError)"
  by (simp add: clone_defs example_fresh_never_def defaultGetRowData_def
      defaultGetSectionHeaderData_def propertyKey_def)

end
